theory Spec2Isabelle
  imports Main
begin

section \<open>JavaScript values, errors and text\<close>

text \<open>
  The program moves JSON values between the model's tool calls, JSON files on disk and
  rows of the hosted database. A value is one of the six JSON kinds; \<open>undefined\<close>, which
  JSON cannot hold, is \<open>None\<close> of \<open>json option\<close> wherever the source can produce it
  (a missing property, an element of the array built by \<open>flat\<close>). An object is the list
  of its own properties in insertion order. Numbers are integers here: the only numbers
  the program computes with are page numbers and lengths.
\<close>

datatype json =
    JNull
  | JBool bool
  | JNum int
  | JStr string
  | JArr "json list"
  | JObj "(string \<times> json) list"

text \<open>
  Everything the source can throw. \<open>Failure msg\<close> is \<open>new Error(msg)\<close>; the pictographs
  that end some of the source's messages are left out of the message text.
  \<open>IOError\<close> stands for any error of the \<open>fs\<close> module (ENOENT, EISDIR, EEXIST).
\<close>

datatype error = SyntaxError | TypeError | IOError | Failure string

text \<open>
  A byte or character sequence is represented by what its readers make of it: the empty
  string, the text of a JSON value (\<open>JSON.stringify\<close> writes it, \<open>JSON.parse\<close> reads it
  back), the bytes of a PDF document given by its pages, or anything else.
\<close>

type_synonym page = string

datatype content = Blank | Json json | PdfData "page list" | Unparsable

definition JSON_parse :: "content \<Rightarrow> error + json" where
  "JSON_parse t = (case t of Json v \<Rightarrow> Inr v | _ \<Rightarrow> Inl SyntaxError)"

definition JSON_stringify :: "json \<Rightarrow> content" where
  "JSON_stringify v = Json v"

text \<open>In an array, \<open>JSON.stringify\<close> writes \<open>undefined\<close> as \<open>null\<close>; in an object it drops
  the property.\<close>

definition undef_null :: "json option \<Rightarrow> json" where
  "undef_null v = (case v of None \<Rightarrow> JNull | Some x \<Rightarrow> x)"

definition obj_of :: "(string \<times> json option) list \<Rightarrow> json" where
  "obj_of kvs = JObj (concat (map (\<lambda>(k, v). case v of None \<Rightarrow> [] | Some x \<Rightarrow> [(k, x)]) kvs))"

subsection \<open>Decimal numerals\<close>

definition digit_char :: "nat \<Rightarrow> char" where
  "digit_char d = ''0123456789'' ! d"

fun show_nat :: "nat \<Rightarrow> string" where
  "show_nat n = (if n < 10 then [digit_char n] else show_nat (n div 10) @ [digit_char (n mod 10)])"

declare show_nat.simps [simp del]

text \<open>\<open>index_of k n\<close>: the array index below \<open>n\<close> that the property name \<open>k\<close> denotes.\<close>

definition index_of :: "string \<Rightarrow> nat \<Rightarrow> nat option" where
  "index_of k n = find (\<lambda>i. show_nat i = k) [0..<n]"

subsection \<open>Property access and truthiness\<close>

text \<open>
  \<open>el.hasOwnProperty(k)\<close>. On \<open>null\<close> the member access throws; an object whose own
  property \<open>hasOwnProperty\<close> shadows the inherited method holds a JSON value there, which
  is not callable. Arrays and strings own \<open>length\<close> and their indices.
\<close>

definition hasOwnProperty :: "json \<Rightarrow> string \<Rightarrow> error + bool" where
  "hasOwnProperty el k =
    (case el of
       JNull \<Rightarrow> Inl TypeError
     | JObj kvs \<Rightarrow>
         if ''hasOwnProperty'' \<in> set (map fst kvs) then Inl TypeError
         else Inr (k \<in> set (map fst kvs))
     | JArr xs \<Rightarrow> Inr (k = ''length'' \<or> index_of k (length xs) \<noteq> None)
     | JStr s \<Rightarrow> Inr (k = ''length'' \<or> index_of k (length s) \<noteq> None)
     | _ \<Rightarrow> Inr False)"

text \<open>\<open>v[k]\<close> for a property name that is not inherited from a prototype.\<close>

definition get_prop :: "json \<Rightarrow> string \<Rightarrow> error + json option" where
  "get_prop v k =
    (case v of
       JNull \<Rightarrow> Inl TypeError
     | JObj kvs \<Rightarrow> Inr (map_of kvs k)
     | JArr xs \<Rightarrow>
         Inr (if k = ''length'' then Some (JNum (int (length xs)))
              else map_option (\<lambda>i. xs ! i) (index_of k (length xs)))
     | JStr s \<Rightarrow>
         Inr (if k = ''length'' then Some (JNum (int (length s)))
              else map_option (\<lambda>i. JStr [s ! i]) (index_of k (length s)))
     | _ \<Rightarrow> Inr None)"

text \<open>\<open>v?.k\<close>: \<open>undefined\<close> when \<open>v\<close> is \<open>undefined\<close> or \<open>null\<close>.\<close>

definition opt_prop :: "json option \<Rightarrow> string \<Rightarrow> json option" where
  "opt_prop v k =
    (case v of
       None \<Rightarrow> None
     | Some x \<Rightarrow> (case get_prop x k of Inl e \<Rightarrow> None | Inr r \<Rightarrow> r))"

fun truthy :: "json option \<Rightarrow> bool" where
  "truthy None = False"
| "truthy (Some JNull) = False"
| "truthy (Some (JBool b)) = b"
| "truthy (Some (JNum n)) = (n \<noteq> 0)"
| "truthy (Some (JStr s)) = (s \<noteq> [])"
| "truthy (Some (JArr xs)) = True"
| "truthy (Some (JObj kvs)) = True"

text \<open>\<open>[...v]\<close>: only arrays and strings are iterable.\<close>

definition spread :: "json \<Rightarrow> error + json list" where
  "spread v =
    (case v of
       JArr xs \<Rightarrow> Inr xs
     | JStr s \<Rightarrow> Inr (map (\<lambda>c. JStr [c]) s)
     | _ \<Rightarrow> Inl TypeError)"

text \<open>\<open>Object.keys(v)\<close>.\<close>

definition Object_keys :: "json \<Rightarrow> error + string list" where
  "Object_keys v =
    (case v of
       JNull \<Rightarrow> Inl TypeError
     | JObj kvs \<Rightarrow> Inr (map fst kvs)
     | JArr xs \<Rightarrow> Inr (map show_nat [0..<length xs])
     | JStr s \<Rightarrow> Inr (map show_nat [0..<length s])
     | _ \<Rightarrow> Inr [])"

text \<open>
  \<open>arr.some(el => el.hasOwnProperty(k))\<close> and \<open>arr.find(el => el.hasOwnProperty(k))\<close>:
  both visit the elements in order and stop at the first hit; a throwing callback ends
  the scan with that error.
\<close>

fun some_hasOwnProperty :: "json list \<Rightarrow> string \<Rightarrow> error + bool" where
  "some_hasOwnProperty [] k = Inr False"
| "some_hasOwnProperty (el # els) k =
    (case hasOwnProperty el k of
       Inl e \<Rightarrow> Inl e
     | Inr b \<Rightarrow> if b then Inr True else some_hasOwnProperty els k)"

fun find_hasOwnProperty :: "json list \<Rightarrow> string \<Rightarrow> error + json option" where
  "find_hasOwnProperty [] k = Inr None"
| "find_hasOwnProperty (el # els) k =
    (case hasOwnProperty el k of
       Inl e \<Rightarrow> Inl e
     | Inr b \<Rightarrow> if b then Inr (Some el) else find_hasOwnProperty els k)"

text \<open>
  \<open>o[k] = v\<close> on the fresh object \<open>{}\<close>, for an object or array \<open>v\<close>: the name
  \<open>__proto__\<close> reaches the inherited setter and leaves \<open>o\<close> without own properties.
  A computed key of an object literal, \<open>{[k]: v}\<close>, always defines an own property.
\<close>

definition assign_fresh :: "string \<Rightarrow> json \<Rightarrow> json" where
  "assign_fresh k v = (if k = ''__proto__'' then JObj [] else JObj [(k, v)])"

section \<open>Documents\<close>

record document =
  pageContent :: string
  metadata :: "(string \<times> json) list"

fun join :: "string \<Rightarrow> string list \<Rightarrow> string" where
  "join sep [] = []"
| "join sep [x] = x"
| "join sep (x # y # ys) = x @ sep @ join sep (y # ys)"

definition newline :: char where
  "newline = CHR 0x0A"

text \<open>langchain's \<open>formatDocumentsAsString\<close>: the page contents, separated by a blank line.\<close>

definition formatDocumentsAsString :: "document list \<Rightarrow> string" where
  "formatDocumentsAsString docs = join [newline, newline] (map pageContent docs)"

section \<open>The file system\<close>

text \<open>A path names a file with its content, a directory, or nothing.\<close>

datatype node = File content | Dir

type_synonym filesys = "string \<Rightarrow> node option"

text \<open>The directory a new entry at \<open>p\<close> is created in.\<close>

definition parent :: "string \<Rightarrow> string" where
  "parent p =
    (let r = dropWhile (\<lambda>c. c \<noteq> CHR ''/'') (rev p)
     in if r = [] then ''.'' else if tl r = [] then ''/'' else rev (tl r))"

definition existsSync :: "filesys \<Rightarrow> string \<Rightarrow> bool" where
  "existsSync s p = (s p \<noteq> None)"

definition readFileSync :: "filesys \<Rightarrow> string \<Rightarrow> error + content" where
  "readFileSync s p = (case s p of Some (File c) \<Rightarrow> Inr c | _ \<Rightarrow> Inl IOError)"

definition writeFileSync :: "filesys \<Rightarrow> string \<Rightarrow> content \<Rightarrow> error + filesys" where
  "writeFileSync s p c =
    (case s p of
       Some Dir \<Rightarrow> Inl IOError
     | Some (File old) \<Rightarrow> Inr (s(p \<mapsto> File c))
     | None \<Rightarrow> if s (parent p) = Some Dir then Inr (s(p \<mapsto> File c)) else Inl IOError)"

definition mkdirSync :: "filesys \<Rightarrow> string \<Rightarrow> error + filesys" where
  "mkdirSync s p =
    (if existsSync s p then Inl IOError
     else if s (parent p) = Some Dir then Inr (s(p \<mapsto> Dir))
     else Inl IOError)"

section \<open>Local persistence of papers and notes\<close>

text \<open>The record \<open>saveToLocalStorage\<close> stores under the paper's URL; \<open>now\<close> is
  \<open>new Date().toISOString()\<close>.\<close>

definition paper_record ::
  "string \<Rightarrow> document list \<Rightarrow> string \<Rightarrow> string \<Rightarrow> json option list \<Rightarrow> json" where
  "paper_record now docs url name notes =
    JObj [(''paper'', JStr (formatDocumentsAsString docs)),
          (''name'', JStr name),
          (''url'', JStr url),
          (''notes'', JArr (map undef_null notes)),
          (''dateCreated'', JStr now)]"

text \<open>
  \<open>saveToLocalStorage\<close> (hnsw-store.ts). \<open>Inr s'\<close>: the call returned and left the file
  system \<open>s'\<close>; \<open>Inl e\<close>: it threw \<open>e\<close> (every throw is before the one write).
\<close>

definition saveToLocalStorage ::
  "filesys \<Rightarrow> string \<Rightarrow> string \<Rightarrow> document list \<Rightarrow> string \<Rightarrow> string \<Rightarrow> json option list
    \<Rightarrow> error + filesys" where
  "saveToLocalStorage s now storagePath docs url name notes =
    (if \<not> existsSync s storagePath then
       writeFileSync s storagePath
         (JSON_stringify (JArr [JObj [(url, paper_record now docs url name notes)]]))
     else
       case readFileSync s storagePath of
         Inl e \<Rightarrow> Inl e
       | Inr storageObj \<Rightarrow>
           if storageObj \<noteq> Blank then
             (case JSON_parse storageObj of
                Inl e \<Rightarrow> Inl e
              | Inr parsed \<Rightarrow>
                  (case spread parsed of
                     Inl e \<Rightarrow> Inl e
                   | Inr copyPaperObj \<Rightarrow>
                       (case some_hasOwnProperty copyPaperObj url of
                          Inl e \<Rightarrow> Inl e
                        | Inr copyHasUrl \<Rightarrow>
                            if \<not> copyHasUrl then
                              writeFileSync s storagePath
                                (JSON_stringify
                                  (JArr (copyPaperObj @
                                    [assign_fresh url (paper_record now docs url name notes)])))
                            else Inr s)))
           else Inr s)"

text \<open>\<open>saveNotesLocally\<close> (notes/index.ts).\<close>

definition notesPath :: string where
  "notesPath = ''generated_notes/notes.json''"

definition saveNotesLocally :: "filesys \<Rightarrow> string \<Rightarrow> json option list \<Rightarrow> error + filesys" where
  "saveNotesLocally s paperUrl notes =
    (if existsSync s notesPath then
       case readFileSync s notesPath of
         Inl e \<Rightarrow> Inl e
       | Inr readNotes \<Rightarrow>
           if readNotes = Blank then
             writeFileSync s notesPath
               (JSON_stringify (assign_fresh paperUrl (JArr (map undef_null notes))))
           else
             (case JSON_parse readNotes of
                Inl e \<Rightarrow> Inl e
              | Inr copyNotesObj \<Rightarrow>
                  (case Object_keys copyNotesObj of
                     Inl e \<Rightarrow> Inl e
                   | Inr ks \<Rightarrow>
                       if paperUrl \<in> set ks then Inr s
                       else
                         writeFileSync s notesPath
                           (JSON_stringify
                             (assign_fresh paperUrl (JArr (map undef_null notes))))))
     else Inr s)"

section \<open>Parsing the model's tool calls\<close>

text \<open>
  The chat model's reply carries \<open>additional_kwargs.tool_calls\<close>, absent when the model
  called no tool; a call carries \<open>function.name\<close> and the string \<open>function.arguments\<close>.
\<close>

record tool_call =
  call_name :: string
  call_arguments :: content

record message =
  tool_calls :: "tool_call list option"

text \<open>\<open>xs.map(f)\<close> for a callback that may throw: the first throw ends the map.\<close>

fun map_err :: "('a \<Rightarrow> error + 'b) \<Rightarrow> 'a list \<Rightarrow> error + 'b list" where
  "map_err f [] = Inr []"
| "map_err f (x # xs) =
    (case f x of
       Inl e \<Rightarrow> Inl e
     | Inr y \<Rightarrow> (case map_err f xs of Inl e \<Rightarrow> Inl e | Inr ys \<Rightarrow> Inr (y # ys)))"

text \<open>\<open>xs.flat()\<close>: the elements of an array element are spliced in, one level deep.\<close>

definition flat_undef :: "json option list \<Rightarrow> json option list" where
  "flat_undef xs =
    concat (map (\<lambda>x. case x of Some (JArr ys) \<Rightarrow> map Some ys | _ \<Rightarrow> [x]) xs)"

definition flat_json :: "json list \<Rightarrow> json list" where
  "flat_json xs = concat (map (\<lambda>x. case x of JArr ys \<Rightarrow> ys | _ \<Rightarrow> [x]) xs)"

definition missing_tool_calls :: error where
  "missing_tool_calls = Failure ''Missing tool_calls in notes output''"

text \<open>\<open>outputParser\<close> (notes/prompt.ts): \<open>const { notes } = JSON.parse(...)\<close> per call.\<close>

definition outputParser :: "message \<Rightarrow> error + json option list" where
  "outputParser output =
    (case tool_calls output of
       None \<Rightarrow> Inl missing_tool_calls
     | Some toolCalls \<Rightarrow>
         (case map_err (\<lambda>call.
                  case JSON_parse (call_arguments call) of
                    Inl e \<Rightarrow> Inl e
                  | Inr v \<Rightarrow> get_prop v ''notes'') toolCalls of
            Inl e \<Rightarrow> Inl e
          | Inr ns \<Rightarrow> Inr (flat_undef ns)))"

text \<open>\<open>answerOutputParser\<close> (qa/prompt.ts).\<close>

definition answerOutputParser :: "message \<Rightarrow> error + json list" where
  "answerOutputParser output =
    (case tool_calls output of
       None \<Rightarrow> Inl missing_tool_calls
     | Some toolCalls \<Rightarrow>
         (case map_err (\<lambda>call. JSON_parse (call_arguments call)) toolCalls of
            Inl e \<Rightarrow> Inl e
          | Inr vs \<Rightarrow> Inr (flat_json vs)))"

section \<open>Page numbers and page deletion\<close>

text \<open>
  A string is a list of 8-bit characters. The white space that \<open>trim\<close> and \<open>parseInt\<close>
  skip: tab, line feed, vertical tab, form feed, carriage return, space and no-break
  space; the white space beyond the 8-bit characters is outside the model.
\<close>

definition is_space :: "char \<Rightarrow> bool" where
  "is_space c =
    (c \<in> set [CHR 0x09, CHR 0x0A, CHR 0x0B, CHR 0x0C, CHR 0x0D, CHR '' '', CHR 0xA0])"

definition trim :: "string \<Rightarrow> string" where
  "trim s = rev (dropWhile is_space (rev (dropWhile is_space s)))"

text \<open>\<open>s.split(",")\<close>.\<close>

fun split_comma :: "string \<Rightarrow> string list" where
  "split_comma [] = [[]]"
| "split_comma (c # cs) =
    (if c = CHR '','' then [] # split_comma cs
     else case split_comma cs of [] \<Rightarrow> [[c]] | w # ws \<Rightarrow> (c # w) # ws)"

fun position :: "char \<Rightarrow> string \<Rightarrow> nat option" where
  "position c [] = None"
| "position c (d # ds) = (if c = d then Some 0 else map_option Suc (position c ds))"

definition digit_val :: "nat \<Rightarrow> char \<Rightarrow> nat option" where
  "digit_val radix c =
    (case (case position c ''0123456789abcdef'' of
             None \<Rightarrow> position c ''0123456789ABCDEF''
           | Some d \<Rightarrow> Some d) of
       None \<Rightarrow> None
     | Some d \<Rightarrow> if d < radix then Some d else None)"

text \<open>The value of the longest prefix of digits; \<open>None\<close> when there is no digit.\<close>

definition parse_digits :: "nat \<Rightarrow> string \<Rightarrow> nat option" where
  "parse_digits radix s =
    (let ds = List.map_filter (digit_val radix) (takeWhile (\<lambda>c. digit_val radix c \<noteq> None) s)
     in if ds = [] then None else Some (foldl (\<lambda>acc d. acc * radix + d) 0 ds))"

text \<open>
  A JavaScript number is an IEEE double. The numbers this program computes with come
  from \<open>parseInt\<close>, from subtracting and from adding 1, so a finite one is an integer.
  An integer below \<open>2 ^ 53\<close> in magnitude is a double; a larger one is rounded to the
  nearest integer with a significand of 53 bits, ties to the even significand, and past
  the largest double to an infinity.
\<close>

datatype number = NaN | Fin int | PosInf | NegInf

fun bit_length :: "nat \<Rightarrow> nat" where
  "bit_length n = (if n = 0 then 0 else Suc (bit_length (n div 2)))"

declare bit_length.simps [simp del]

definition round_double :: "nat \<Rightarrow> nat" where
  "round_double n =
    (if n < 2 ^ 53 then n
     else
       let e = bit_length n - 53; q = n div 2 ^ e; r = n mod 2 ^ e
       in (if 2 ^ e < 2 * r \<or> (2 * r = 2 ^ e \<and> odd q) then q + 1 else q) * 2 ^ e)"

definition to_number :: "int \<Rightarrow> number" where
  "to_number i =
    (let m = round_double (nat \<bar>i\<bar>)
     in if 2 ^ 1024 \<le> m then (if i < 0 then NegInf else PosInf)
        else Fin (if i < 0 then - int m else int m))"

text \<open>\<open>x - y\<close> and \<open>x + y\<close>: the exact result, rounded.\<close>

fun num_sub :: "number \<Rightarrow> number \<Rightarrow> number" where
  "num_sub (Fin a) (Fin b) = to_number (a - b)"
| "num_sub NaN y = NaN"
| "num_sub x NaN = NaN"
| "num_sub PosInf PosInf = NaN"
| "num_sub NegInf NegInf = NaN"
| "num_sub PosInf y = PosInf"
| "num_sub NegInf y = NegInf"
| "num_sub (Fin a) PosInf = NegInf"
| "num_sub (Fin a) NegInf = PosInf"

fun num_add :: "number \<Rightarrow> number \<Rightarrow> number" where
  "num_add (Fin a) (Fin b) = to_number (a + b)"
| "num_add NaN y = NaN"
| "num_add x NaN = NaN"
| "num_add PosInf NegInf = NaN"
| "num_add NegInf PosInf = NaN"
| "num_add PosInf y = PosInf"
| "num_add NegInf y = NegInf"
| "num_add (Fin a) PosInf = PosInf"
| "num_add (Fin a) NegInf = NegInf"

text \<open>
  \<open>parseInt(str)\<close> with no radix: leading white space, a sign, a \<open>0x\<close> prefix for
  base 16, then digits up to the first character that is none; \<open>NaN\<close> when there is no
  digit, else the number nearest to the signed value of the digits. (Past its 20th
  significant digit an implementation may read a decimal digit as 0; here every digit
  counts.)
\<close>

definition parseInt :: "string \<Rightarrow> number" where
  "parseInt str =
    (let s1 = dropWhile is_space str;
         neg = (take 1 s1 = ''-'');
         s2 = (if take 1 s1 = ''-'' \<or> take 1 s1 = ''+'' then drop 1 s1 else s1);
         hex = (take 2 s2 = ''0x'' \<or> take 2 s2 = ''0X'');
         s3 = (if hex then drop 2 s2 else s2)
     in case parse_digits (if hex then 16 else 10) s3 of
          None \<Rightarrow> NaN
        | Some n \<Rightarrow> to_number (if neg then - int n else int n))"

text \<open>\<open>processPagesToDelete\<close> (server.ts).\<close>

definition processPagesToDelete :: "string \<Rightarrow> number list" where
  "processPagesToDelete pagesToDelete =
    map (\<lambda>num. parseInt (trim num)) (split_comma pagesToDelete)"

text \<open>
  pdf-lib: \<open>removePage(index)\<close> throws unless \<open>0 \<le> index \<le> pageCount - 1\<close>, so also
  for \<open>NaN\<close> and the infinities; \<open>save()\<close> adds one blank page to a document that has
  none.
\<close>

definition removePage :: "page list \<Rightarrow> number \<Rightarrow> error + page list" where
  "removePage pages index =
    (case index of
       Fin i \<Rightarrow>
         if 0 \<le> i \<and> i < int (length pages)
         then Inr (take (nat i) pages @ drop (Suc (nat i)) pages)
         else Inl (Failure ''index out of range'')
     | _ \<Rightarrow> Inl (Failure ''index out of range''))"

definition blank_page :: page where
  "blank_page = []"

definition pdf_save :: "page list \<Rightarrow> content" where
  "pdf_save pages = PdfData (if pages = [] then [blank_page] else pages)"

text \<open>The loop of \<open>deletePages\<close>: \<open>numToOffsetBy\<close> starts at 1 and grows by 1 per page.\<close>

fun delete_loop :: "page list \<Rightarrow> number \<Rightarrow> number list \<Rightarrow> error + page list" where
  "delete_loop pages numToOffsetBy [] = Inr pages"
| "delete_loop pages numToOffsetBy (pageNumber # rest) =
    (case removePage pages (num_sub pageNumber numToOffsetBy) of
       Inl e \<Rightarrow> Inl e
     | Inr pages' \<Rightarrow> delete_loop pages' (num_add numToOffsetBy (Fin 1)) rest)"

definition deletePages :: "content \<Rightarrow> number list \<Rightarrow> error + content" where
  "deletePages pdf pagesToDelete =
    (case pdf of
       PdfData pages \<Rightarrow>
         (case delete_loop pages (Fin 1) pagesToDelete of
            Inl e \<Rightarrow> Inl (Failure ''Failed to delete pages'')
          | Inr pages' \<Rightarrow> Inr (pdf_save pages'))
     | _ \<Rightarrow> Inl (Failure ''Failed to delete pages''))"

text \<open>
  What deleting a set of page numbers means: of the pages numbered \<open>b, b + 1, \<dots>\<close>, those
  whose number is not in \<open>S\<close>, in their order.
\<close>

fun keep_pages :: "nat \<Rightarrow> nat set \<Rightarrow> page list \<Rightarrow> page list" where
  "keep_pages b S [] = []"
| "keep_pages b S (x # xs) = (if b \<in> S then keep_pages (Suc b) S xs else x # keep_pages (Suc b) S xs)"

text \<open>A comma-separated string of page numbers, as a client writes it.\<close>

fun join_comma :: "string list \<Rightarrow> string" where
  "join_comma [] = []"
| "join_comma [x] = x"
| "join_comma (x # y # ys) = x @ CHR '','' # join_comma (y # ys)"

section \<open>The hosted database\<close>

text \<open>
  Rows of the tables \<open>arxiv_papers\<close> and \<open>arxiv_question_answering\<close>; every column is
  nullable, so a field holds a JSON value. The generated columns \<open>id\<close> and \<open>created_at\<close>
  are never read by the program and are left out.
\<close>

record paper_row =
  p_paper :: json
  p_url :: json
  p_notes :: json
  p_name :: json

record qa_row =
  q_question :: json
  q_answer :: json
  q_context :: json
  q_followups :: json

record database =
  papers :: "paper_row list"
  qas :: "qa_row list"
  embedded :: "document list"

section \<open>External collaborators\<close>

text \<open>
  What the program reaches through client libraries is a parameter of the model. A
  function into \<open>option\<close> is an awaited call that either resolves or rejects (\<open>None\<close>).
  \<open>chain_invoke tool inputs\<close> is the prompt template piped into the chat model bound to
  one tool schema, invoked on the named inputs. \<open>supabase_error r\<close>: the database
  service answers the request \<open>r\<close> with \<open>{data: null, error}\<close> and stores nothing; the
  supabase client does not throw. Each request is answered on its own: a select can
  fail and a later insert succeed.
\<close>

datatype tool = NotesTool | AnswerTool

datatype request =
    SelectPaper string
  | SelectQa string
  | InsertPaper paper_row
  | InsertQa qa_row
  | InsertDocuments "document list"

record env =
  private_key_set :: bool
  supabase_url_set :: bool
  supabase_error :: "request \<Rightarrow> bool"
  time_now :: string
  uuidv4 :: string
  axios_get :: "string \<Rightarrow> content option"
  pdf_loader :: "content \<Rightarrow> document list option"
  chain_invoke :: "tool \<Rightarrow> (string \<times> string) list \<Rightarrow> message option"
  embeddings_ok :: "document list \<Rightarrow> bool"
  similaritySearch :: "document list \<Rightarrow> string \<Rightarrow> string \<Rightarrow> document list option"
  hnsw_load :: "string \<Rightarrow> document list option"
  hnsw_save :: "string \<Rightarrow> document list \<Rightarrow> bool"
  getRelevantDocuments :: "document list \<Rightarrow> string \<Rightarrow> document list option"

text \<open>The calls made to the collaborators, in order.\<close>

datatype event =
    HttpGet string
  | PdfLoad
  | ChainInvoke tool "(string \<times> string) list"
  | AddDocuments
  | SimilaritySearch string string
  | HnswFromDocuments
  | HnswLoad string
  | HnswSave string
  | RetrieverCall string

record world =
  fsys :: filesys
  db :: database
  trace :: "event list"

definition log :: "event \<Rightarrow> world \<Rightarrow> world" where
  "log ev w = w\<lparr>trace := trace w @ [ev]\<rparr>"

section \<open>Strings and paths\<close>

definition ends_with :: "string \<Rightarrow> string \<Rightarrow> bool" where
  "ends_with s suffix = (length suffix \<le> length s \<and> drop (length s - length suffix) s = suffix)"

text \<open>\<open>path.basename\<close> (POSIX): trailing slashes are ignored.\<close>

definition basename :: "string \<Rightarrow> string" where
  "basename p =
    rev (takeWhile (\<lambda>c. c \<noteq> CHR ''/'') (dropWhile (\<lambda>c. c = CHR ''/'') (rev p)))"

text \<open>
  The test of \<open>mainV2\<close>'s regular expression. The source builds it from a template
  literal, where \<open>\.\<close> is the plain character \<open>.\<close>; so the pattern is
  \<^verbatim>\<open>^(http|https)://(?!localhost|127.0.0.1)(.*?.pdf)$\<close> and each dot matches any character
  but a line terminator.
\<close>

text \<open>Line feed and carriage return; the line and paragraph separators U+2028 and U+2029
  are beyond the 8-bit characters.\<close>

definition line_terminator :: "char \<Rightarrow> bool" where
  "line_terminator c = (c = CHR 0x0A \<or> c = CHR 0x0D)"

fun match_prefix :: "string \<Rightarrow> string \<Rightarrow> bool" where
  "match_prefix [] s = True"
| "match_prefix (p # ps) [] = False"
| "match_prefix (p # ps) (c # cs) =
    ((if p = CHR ''.'' then \<not> line_terminator c else p = c) \<and> match_prefix ps cs)"

definition url_tail_ok :: "string \<Rightarrow> bool" where
  "url_tail_ok r =
    (\<not> match_prefix ''localhost'' r \<and> \<not> match_prefix ''127.0.0.1'' r \<and>
     4 \<le> length r \<and> drop (length r - 3) r = ''pdf'' \<and>
     list_all (\<lambda>c. \<not> line_terminator c) (take (length r - 3) r))"

definition urlRegEx_test :: "string \<Rightarrow> bool" where
  "urlRegEx_test s =
    ((take 7 s = ''http://'' \<and> url_tail_ok (drop 7 s)) \<or>
     (take 8 s = ''https://'' \<and> url_tail_ok (drop 8 s)))"

subsection \<open>String conversion\<close>

definition show_int :: "int \<Rightarrow> string" where
  "show_int i = (if i < 0 then CHR ''-'' # show_nat (nat (- i)) else show_nat (nat i))"

text \<open>\<open>String(v)\<close>; inside an array's string, \<open>null\<close> is empty.\<close>

fun js_string :: "json \<Rightarrow> string" where
  "js_string JNull = ''null''"
| "js_string (JBool b) = (if b then ''true'' else ''false'')"
| "js_string (JNum n) = show_int n"
| "js_string (JStr s) = s"
| "js_string (JArr xs) = join '','' (map (\<lambda>x. if x = JNull then [] else js_string x) xs)"
| "js_string (JObj kvs) = ''[object Object]''"

text \<open>\<open>notes.map((note) => note.note).join("\n")\<close>: throws unless \<open>notes\<close> is an array
  without \<open>null\<close> elements.\<close>

definition notesAsString :: "json \<Rightarrow> error + string" where
  "notesAsString notes =
    (case notes of
       JArr xs \<Rightarrow>
         (case map_err (\<lambda>note. get_prop note ''note'') xs of
            Inl e \<Rightarrow> Inl e
          | Inr vs \<Rightarrow>
              Inr (join [newline]
                    (map (\<lambda>v. case v of None \<Rightarrow> [] | Some JNull \<Rightarrow> [] | Some x \<Rightarrow> js_string x) vs)))
     | _ \<Rightarrow> Inl TypeError)"

section \<open>SupabaseDatabase (database.ts)\<close>

definition fromExistingIndex :: "env \<Rightarrow> error + unit" where
  "fromExistingIndex e =
    (if \<not> private_key_set e then Inl (Failure ''Missing SUPABASE_PRIVATE_KEY'')
     else if \<not> supabase_url_set e then Inl (Failure ''Missing SUPABASE_URL'')
     else Inr ())"

text \<open>The \<open>data\<close> of \<open>select().eq(column, value)\<close>: \<open>None\<close> is \<open>null\<close>, sent with an error.\<close>

definition select_papers :: "env \<Rightarrow> database \<Rightarrow> string \<Rightarrow> paper_row list option" where
  "select_papers e d url =
    (if supabase_error e (SelectPaper url) then None
     else Some (filter (\<lambda>r. p_url r = JStr url) (papers d)))"

definition select_qas :: "env \<Rightarrow> database \<Rightarrow> string \<Rightarrow> qa_row list option" where
  "select_qas e d question =
    (if supabase_error e (SelectQa question) then None
     else Some (take 1 (filter (\<lambda>r. q_question r = JStr question) (qas d))))"

text \<open>\<open>getPaper\<close>: \<open>data[0].name\<close> is read for the log line before \<open>data[0]\<close> is returned;
  the \<open>catch\<close> rethrows.\<close>

definition getPaper :: "env \<Rightarrow> database \<Rightarrow> string \<Rightarrow> error + paper_row option" where
  "getPaper e d url =
    (case select_papers e d url of
       None \<Rightarrow> Inr None
     | Some data \<Rightarrow> (case data of [] \<Rightarrow> Inl TypeError | row # rest \<Rightarrow> Inr (Some row)))"

text \<open>\<open>rtrnExistingQa\<close>: \<open>data?.[0]\<close>.\<close>

definition rtrnExistingQa :: "env \<Rightarrow> database \<Rightarrow> string \<Rightarrow> qa_row option" where
  "rtrnExistingQa e d question =
    (case select_qas e d question of
       None \<Rightarrow> None
     | Some data \<Rightarrow> (case data of [] \<Rightarrow> None | row # rest \<Rightarrow> Some row))"

definition addPaper :: "env \<Rightarrow> database \<Rightarrow> string \<Rightarrow> string \<Rightarrow> json option list \<Rightarrow> string \<Rightarrow> database" where
  "addPaper e d paper url notes name =
    (let row = \<lparr>p_paper = JStr paper, p_url = JStr url,
                p_notes = JArr (map undef_null notes), p_name = JStr name\<rparr>
     in if supabase_error e (InsertPaper row) then d else d\<lparr>papers := papers d @ [row]\<rparr>)"

definition saveQa :: "env \<Rightarrow> database \<Rightarrow> string \<Rightarrow> json option \<Rightarrow> string \<Rightarrow> json option \<Rightarrow> database" where
  "saveQa e d question answer context followupQuestions =
    (let row = \<lparr>q_question = JStr question, q_answer = undef_null answer,
                q_context = JStr context, q_followups = undef_null followupQuestions\<rparr>
     in if supabase_error e (InsertQa row) then d else d\<lparr>qas := qas d @ [row]\<rparr>)"

section \<open>HNSWDatabase and its local storage (hnsw-store.ts)\<close>

text \<open>\<open>saveQAToLocalStorage\<close>.\<close>

definition qa_record :: "string \<Rightarrow> string \<Rightarrow> json option \<Rightarrow> string \<Rightarrow> json option \<Rightarrow> json" where
  "qa_record now question answer context followupQuestions =
    obj_of [(''question'', Some (JStr question)),
            (''answer'', answer),
            (''context'', Some (JStr context)),
            (''followupQuestions'', followupQuestions),
            (''dateCreated'', Some (JStr now))]"

definition saveQAToLocalStorage ::
  "filesys \<Rightarrow> string \<Rightarrow> string \<Rightarrow> string \<Rightarrow> json option \<Rightarrow> string \<Rightarrow> json option
    \<Rightarrow> error + filesys" where
  "saveQAToLocalStorage s now storagePath question answer context followupQuestions =
    (if \<not> existsSync s storagePath then
       writeFileSync s storagePath
         (JSON_stringify (JArr [qa_record now question answer context followupQuestions]))
     else
       case readFileSync s storagePath of
         Inl err \<Rightarrow> Inl err
       | Inr storageObj \<Rightarrow>
           (case JSON_parse storageObj of
              Inl err \<Rightarrow> Inl err
            | Inr parsed \<Rightarrow>
                (case spread parsed of
                   Inl err \<Rightarrow> Inl err
                 | Inr old \<Rightarrow>
                     writeFileSync s storagePath
                       (JSON_stringify
                         (JArr (old @ [qa_record now question answer context followupQuestions]))))))"

text \<open>
  The guarded read that \<open>getPaperFromLocalStorage\<close>, \<open>mainV2\<close> and \<open>qaOnPaperV2\<close> share:
  the file exists, holds a JSON array, and some element owns the property \<open>url\<close>; then the
  first such element. \<open>Inr None\<close>: the guard is false. The source reads and parses the file
  once per use; nothing is written in between.
\<close>

definition stored_entry :: "filesys \<Rightarrow> string \<Rightarrow> string \<Rightarrow> error + json option" where
  "stored_entry s storagePath url =
    (if \<not> existsSync s storagePath then Inr None
     else
       case readFileSync s storagePath of
         Inl err \<Rightarrow> Inl err
       | Inr txt \<Rightarrow>
           (case JSON_parse txt of
              Inl err \<Rightarrow> Inl err
            | Inr parsed \<Rightarrow>
                (case parsed of
                   JArr els \<Rightarrow>
                     (case some_hasOwnProperty els url of
                        Inl err \<Rightarrow> Inl err
                      | Inr found \<Rightarrow>
                          if found then find_hasOwnProperty els url else Inr None)
                 | _ \<Rightarrow> Inr None)))"

text \<open>\<open>x[url]\<close> for the result \<open>x\<close> of \<open>find\<close>.\<close>

definition entry_value :: "json option \<Rightarrow> string \<Rightarrow> error + json option" where
  "entry_value x url = (case x of None \<Rightarrow> Inl TypeError | Some el \<Rightarrow> get_prop el url)"

definition getPaperFromLocalStorage :: "filesys \<Rightarrow> string \<Rightarrow> error + json option" where
  "getPaperFromLocalStorage s url =
    (case stored_entry s (''local_storage/'' @ basename url @ ''/data.json'') url of
       Inl err \<Rightarrow> Inl err
     | Inr None \<Rightarrow> Inr (Some JNull)
     | Inr (Some el) \<Rightarrow> get_prop el url)"

text \<open>\<open>HNSWDatabase.addPaper\<close>.\<close>

definition hnsw_addPaper ::
  "filesys \<Rightarrow> string \<Rightarrow> string \<Rightarrow> document list \<Rightarrow> string \<Rightarrow> string \<Rightarrow> json option list
    \<Rightarrow> (error + unit) \<times> filesys" where
  "hnsw_addPaper s now storagePath docs url name notes =
    (case (if \<not> existsSync s (''local_storage/'' @ basename url)
           then mkdirSync s (''local_storage/'' @ basename url) else Inr s) of
       Inl err \<Rightarrow> (Inl err, s)
     | Inr s1 \<Rightarrow>
         (case saveToLocalStorage s1 now storagePath docs url name notes of
            Inl err \<Rightarrow> (Inl err, s1)
          | Inr s2 \<Rightarrow> (Inr (), s2)))"

section \<open>Taking notes (notes/index.ts)\<close>

definition ai_minus_the_braids :: error where
  "ai_minus_the_braids = Failure ''AI minus the braids''"

definition invalid_pdf :: error where
  "invalid_pdf = Failure ''Invalid PDF or file path.''"

text \<open>What \<open>main\<close> and \<open>mainV2\<close> resolve to: the \<open>notes\<close> read back from the store (any value,
  or \<open>undefined\<close>), the notes just generated, or \<open>null\<close>.\<close>

datatype notes_result = StoredNotes "json option" | NewNotes "json option list" | Null

definition loadPdfFromUrl :: "env \<Rightarrow> world \<Rightarrow> string \<Rightarrow> (error + content) \<times> world" where
  "loadPdfFromUrl e w url =
    (case axios_get e url of
       None \<Rightarrow> (Inl (Failure ''PDF fetching failed''), log (HttpGet url) w)
     | Some data \<Rightarrow> (Inr data, log (HttpGet url) w))"

text \<open>\<open>convertPdfToDocuments\<close>: the buffer goes to a scratch file for the loader, which is
  removed once the loader has returned.\<close>

definition convertPdfToDocuments :: "env \<Rightarrow> world \<Rightarrow> content \<Rightarrow> (error + document list) \<times> world" where
  "convertPdfToDocuments e w pdf =
    (let pdfPath = ''pdfs/'' @ take 13 (uuidv4 e) @ ''.pdf'' in
     case writeFileSync (fsys w) pdfPath pdf of
       Inl err \<Rightarrow> (Inl (Failure ''PDF to Document conversion failed''), w)
     | Inr s1 \<Rightarrow>
         (case pdf_loader e pdf of
            None \<Rightarrow>
              (Inl (Failure ''PDF to Document conversion failed''), log PdfLoad (w\<lparr>fsys := s1\<rparr>))
          | Some docs \<Rightarrow> (Inr docs, log PdfLoad (w\<lparr>fsys := s1(pdfPath := None)\<rparr>))))"

definition generateNotes :: "env \<Rightarrow> world \<Rightarrow> document list \<Rightarrow> (error + json option list) \<times> world" where
  "generateNotes e w documents =
    (let inputs = [(''paper'', formatDocumentsAsString documents)];
         w1 = log (ChainInvoke NotesTool inputs) w
     in case chain_invoke e NotesTool inputs of
          None \<Rightarrow> (Inl (Failure ''Notes generation failed''), w1)
        | Some output \<Rightarrow>
            (case outputParser output of
               Inl err \<Rightarrow> (Inl (Failure ''Notes generation failed''), w1)
             | Inr notes \<Rightarrow> (Inr notes, w1)))"

text \<open>\<open>{...doc, metadata: {...doc.metadata, url: paperUrl}}\<close>.\<close>

fun set_key :: "string \<Rightarrow> json \<Rightarrow> (string \<times> json) list \<Rightarrow> (string \<times> json) list" where
  "set_key k v [] = [(k, v)]"
| "set_key k v ((k', v') # kvs) = (if k' = k then (k, v) # kvs else (k', v') # set_key k v kvs)"

definition with_url :: "string \<Rightarrow> document \<Rightarrow> document" where
  "with_url paperUrl doc = doc\<lparr>metadata := set_key ''url'' (JStr paperUrl) (metadata doc)\<rparr>"

text \<open>The \<open>default\<close> branch of \<open>main\<close>, inside its \<open>try\<close>: load, cut, convert, take notes,
  then insert the paper and add the documents to the vector store side by side.\<close>

definition main_ingest ::
  "env \<Rightarrow> world \<Rightarrow> string \<Rightarrow> string \<Rightarrow> number list \<Rightarrow> (error + json option list) \<times> world" where
  "main_ingest e w paperUrl paperName pagesToDelete =
    (case loadPdfFromUrl e w paperUrl of
       (Inl err, w1) \<Rightarrow> (Inl err, w1)
     | (Inr pdf, w1) \<Rightarrow>
         (case (if pagesToDelete \<noteq> [] then deletePages pdf pagesToDelete else Inr pdf) of
            Inl err \<Rightarrow> (Inl err, w1)
          | Inr pdfAsBuffer \<Rightarrow>
              (case convertPdfToDocuments e w1 pdfAsBuffer of
                 (Inl err, w2) \<Rightarrow> (Inl err, w2)
               | (Inr documents, w2) \<Rightarrow>
                   (case generateNotes e w2 documents of
                      (Inl err, w3) \<Rightarrow> (Inl err, w3)
                    | (Inr notes, w3) \<Rightarrow>
                        (let formattedDocs = map (with_url paperUrl) documents;
                             d1 = addPaper e (db w3)
                                    (formatDocumentsAsString formattedDocs) paperUrl notes paperName;
                             w4 = log AddDocuments (w3\<lparr>db := d1\<rparr>)
                         in if embeddings_ok e formattedDocs \<and>
                               \<not> supabase_error e (InsertDocuments formattedDocs)
                            then (Inr notes,
                                  w4\<lparr>db := d1\<lparr>embedded := embedded d1 @ formattedDocs\<rparr>\<rparr>)
                            else (Inl (Failure ''Error inserting''), w4))))))"

text \<open>\<open>main\<close>: every throw inside becomes \<open>AI minus the braids\<close>.\<close>

definition main ::
  "env \<Rightarrow> world \<Rightarrow> string \<Rightarrow> string \<Rightarrow> number list \<Rightarrow> (error + notes_result) \<times> world" where
  "main e w paperUrl paperName pagesToDelete =
    (case fromExistingIndex e of
       Inl err \<Rightarrow> (Inl ai_minus_the_braids, w)
     | Inr u \<Rightarrow>
         if \<not> ends_with paperUrl ''.pdf'' then (Inl ai_minus_the_braids, w)
         else
           (case getPaper e (db w) paperUrl of
              Inl err \<Rightarrow> (Inl ai_minus_the_braids, w)
            | Inr (Some existingPaper) \<Rightarrow> (Inr (StoredNotes (Some (p_notes existingPaper))), w)
            | Inr None \<Rightarrow>
                (case main_ingest e w paperUrl paperName pagesToDelete of
                   (Inl err, w1) \<Rightarrow> (Inl ai_minus_the_braids, w1)
                 | (Inr notes, w1) \<Rightarrow> (Inr (NewNotes notes), w1))))"

text \<open>The \<open>try\<close> block of \<open>mainV2\<close>. \<open>database\<close> is \<open>null\<close> when building the index failed;
  the first member access on it then throws.\<close>

definition mainV2_ingest ::
  "env \<Rightarrow> world \<Rightarrow> string \<Rightarrow> string \<Rightarrow> number list \<Rightarrow> (error + json option list) \<times> world" where
  "mainV2_ingest e w paperUrl paperName pagesToDelete =
    (case (if urlRegEx_test paperUrl
           then (case loadPdfFromUrl e w paperUrl of
                   (Inl err, w1) \<Rightarrow> (Inl err, w1)
                 | (Inr data, w1) \<Rightarrow> (Inr (Some data), w1))
           else (Inr None, w)) of
       (Inl err, w1) \<Rightarrow> (Inl err, w1)
     | (Inr fromUrl, w1) \<Rightarrow>
         (case (if existsSync (fsys w) paperUrl
                then (case readFileSync (fsys w1) paperUrl of
                        Inl err \<Rightarrow> Inl err
                      | Inr data \<Rightarrow> Inr (Some data))
                else Inr fromUrl) of
            Inl err \<Rightarrow> (Inl err, w1)
          | Inr None \<Rightarrow> (Inl TypeError, w1)
          | Inr (Some pdf) \<Rightarrow>
              (case (if pagesToDelete \<noteq> [] then deletePages pdf pagesToDelete else Inr pdf) of
                 Inl err \<Rightarrow> (Inl err, w1)
               | Inr pdfAsBuffer \<Rightarrow>
                   (case convertPdfToDocuments e w1 pdfAsBuffer of
                      (Inl err, w2) \<Rightarrow> (Inl err, w2)
                    | (Inr documents, w2) \<Rightarrow>
                        (let formattedDocs = map (with_url paperUrl) documents;
                             database = (if embeddings_ok e formattedDocs
                                         then Some formattedDocs else None);
                             w3 = log HnswFromDocuments w2;
                             vectorStoreDir = ''vector_store/'' @ basename paperUrl
                         in case (if \<not> existsSync (fsys w3) vectorStoreDir then
                                    (case mkdirSync (fsys w3) vectorStoreDir of
                                       Inl err \<Rightarrow> (Inl err, w3)
                                     | Inr s1 \<Rightarrow>
                                         (case database of
                                            None \<Rightarrow> (Inl TypeError, w3\<lparr>fsys := s1\<rparr>)
                                          | Some store \<Rightarrow>
                                              if hnsw_save e vectorStoreDir store
                                              then (Inr (), log (HnswSave vectorStoreDir) (w3\<lparr>fsys := s1\<rparr>))
                                              else (Inl IOError,
                                                    log (HnswSave vectorStoreDir) (w3\<lparr>fsys := s1\<rparr>))))
                                  else (Inr (), w3)) of
                              (Inl err, w4) \<Rightarrow> (Inl err, w4)
                            | (Inr u, w4) \<Rightarrow>
                                (case generateNotes e w4 documents of
                                   (Inl err, w5) \<Rightarrow> (Inl err, w5)
                                 | (Inr notes, w5) \<Rightarrow>
                                     (case database of
                                        None \<Rightarrow> (Inl TypeError, w5)
                                      | Some store \<Rightarrow>
                                          (case hnsw_addPaper (fsys w5) (time_now e)
                                                  (''generated_notes/'' @ basename paperUrl @ ''/data.json'')
                                                  formattedDocs paperUrl paperName notes of
                                             (Inl err, s6) \<Rightarrow> (Inl err, w5\<lparr>fsys := s6\<rparr>)
                                           | (Inr u', s6) \<Rightarrow> (Inr notes, w5\<lparr>fsys := s6\<rparr>)))))))))"

text \<open>\<open>mainV2\<close>: the validity test and the look-up of notes taken earlier are outside the
  \<open>try\<close>, so what they throw reaches the caller; the \<open>catch\<close> turns the rest into \<open>null\<close>.\<close>

definition mainV2 ::
  "env \<Rightarrow> world \<Rightarrow> string \<Rightarrow> string \<Rightarrow> number list \<Rightarrow> (error + notes_result) \<times> world" where
  "mainV2 e w paperUrl paperName pagesToDelete =
    (let isPdfUrl = urlRegEx_test paperUrl;
         isLocalPdf = existsSync (fsys w) paperUrl
     in if (\<not> isPdfUrl \<and> \<not> isLocalPdf) \<or> \<not> ends_with paperUrl ''.pdf''
        then (Inl invalid_pdf, w)
        else
          (case stored_entry (fsys w)
                  (''generated_notes/'' @ basename paperUrl @ ''/data.json'') paperUrl of
             Inl err \<Rightarrow> (Inl err, w)
           | Inr (Some el) \<Rightarrow>
               (case get_prop el paperUrl of
                  Inl err \<Rightarrow> (Inl err, w)
                | Inr None \<Rightarrow> (Inl TypeError, w)
                | Inr (Some stored) \<Rightarrow>
                    (case get_prop stored ''notes'' of
                       Inl err \<Rightarrow> (Inl err, w)
                     | Inr notes \<Rightarrow> (Inr (StoredNotes notes), w)))
           | Inr None \<Rightarrow>
               (case mainV2_ingest e w paperUrl paperName pagesToDelete of
                  (Inl err, w1) \<Rightarrow> (Inr Null, w1)
                | (Inr notes, w1) \<Rightarrow> (Inr (NewNotes notes), w1))))"

section \<open>Question answering (qa/index.ts)\<close>

definition qa_inputs :: "string \<Rightarrow> string \<Rightarrow> string \<Rightarrow> string \<Rightarrow> (string \<times> string) list" where
  "qa_inputs docsKey question notesStr docsStr =
    [(''question'', question), (''notes'', notesStr), (docsKey, docsStr)]"

text \<open>\<open>qaModel\<close>: any throw inside becomes \<open>QA failed\<close>.\<close>

definition qaModel ::
  "env \<Rightarrow> world \<Rightarrow> string \<Rightarrow> document list \<Rightarrow> json \<Rightarrow> (error + json list) \<times> world" where
  "qaModel e w question documents notes =
    (case notesAsString notes of
       Inl err \<Rightarrow> (Inl (Failure ''QA failed''), w)
     | Inr notesStr \<Rightarrow>
         (let inputs = qa_inputs ''documents'' question notesStr (formatDocumentsAsString documents);
              w1 = log (ChainInvoke AnswerTool inputs) w
          in case chain_invoke e AnswerTool inputs of
               None \<Rightarrow> (Inl (Failure ''QA failed''), w1)
             | Some output \<Rightarrow>
                 (case answerOutputParser output of
                    Inl err \<Rightarrow> (Inl (Failure ''QA failed''), w1)
                  | Inr answers \<Rightarrow> (Inr answers, w1))))"

text \<open>The generic failure marker.\<close>

definition error_marker :: "json list" where
  "error_marker =
    [JObj [(''answer'', JStr ''Error''), (''followupQuestions'', JArr [JStr ''Error''])]]"

text \<open>
  \<open>chain_result\<close>: what the chain inside \<open>qaModelWithHNSW\<close> (prompt, model with the answer
  tool, \<open>answerOutputParser\<close>) resolves to on its inputs, or the error it throws.
\<close>

definition chain_result :: "env \<Rightarrow> (string \<times> string) list \<Rightarrow> error + json list" where
  "chain_result e inputs =
    (case chain_invoke e AnswerTool inputs of
       None \<Rightarrow> Inl (Failure ''model call failed'')
     | Some output \<Rightarrow> answerOutputParser output)"

text \<open>\<open>qaModelWithHNSW\<close>: the \<open>catch\<close> returns the marker. The guard on its arguments
  cannot fire: arrays and the retriever object are truthy, and the caller has tested
  \<open>notes\<close>.\<close>

definition qaModelWithHNSW ::
  "env \<Rightarrow> world \<Rightarrow> string \<Rightarrow> document list \<Rightarrow> json \<Rightarrow> json list \<times> world" where
  "qaModelWithHNSW e w question documents notes =
    (if \<not> truthy (Some notes) then (error_marker, w)
     else
       case notesAsString notes of
         Inl err \<Rightarrow> (error_marker, w)
       | Inr notesStr \<Rightarrow>
           (let inputs = qa_inputs ''relevantDocuments'' question notesStr
                           (formatDocumentsAsString documents)
            in case chain_result e inputs of
                 Inl err \<Rightarrow> (error_marker, log (ChainInvoke AnswerTool inputs) w)
               | Inr answers \<Rightarrow> (answers, log (ChainInvoke AnswerTool inputs) w)))"

text \<open>The saves of \<open>qaOnPaper\<close>: one insert per answer, all started before any is awaited;
  the flag tells whether every callback got as far as its insert.\<close>

fun save_answers ::
  "env \<Rightarrow> string \<Rightarrow> string \<Rightarrow> json list \<Rightarrow> database \<Rightarrow> bool \<times> database" where
  "save_answers e question context [] d = (True, d)"
| "save_answers e question context (res # rest) d =
    (case (get_prop res ''answer'', get_prop res ''followupQuestions'') of
       (Inr a, Inr f) \<Rightarrow> save_answers e question context rest (saveQa e d question a context f)
     | _ \<Rightarrow> (False, snd (save_answers e question context rest d)))"

text \<open>\<open>qaOnPaper\<close>: every throw inside becomes \<open>AI minus the braids\<close>. It resolves to the
  stored answer as an object, or to the array of fresh answers.\<close>

definition qaOnPaper :: "env \<Rightarrow> world \<Rightarrow> string \<Rightarrow> string \<Rightarrow> (error + json) \<times> world" where
  "qaOnPaper e w question paperUrl =
    (case fromExistingIndex e of
       Inl err \<Rightarrow> (Inl ai_minus_the_braids, w)
     | Inr u \<Rightarrow>
         (case rtrnExistingQa e (db w) question of
            Some existingQa \<Rightarrow>
              (Inr (JObj [(''answer'', q_answer existingQa),
                          (''followupQuestions'', q_followups existingQa)]), w)
          | None \<Rightarrow>
              (case getPaper e (db w) paperUrl of
                 Inl err \<Rightarrow> (Inl ai_minus_the_braids, w)
               | Inr None \<Rightarrow> (Inl ai_minus_the_braids, w)
               | Inr (Some paper) \<Rightarrow>
                   if \<not> truthy (Some (p_notes paper)) then (Inl ai_minus_the_braids, w)
                   else
                     (case similaritySearch e (embedded (db w)) question paperUrl of
                        None \<Rightarrow>
                          (Inl ai_minus_the_braids, log (SimilaritySearch question paperUrl) w)
                      | Some documents \<Rightarrow>
                          (case qaModel e (log (SimilaritySearch question paperUrl) w)
                                  question documents (p_notes paper) of
                             (Inl err, w1) \<Rightarrow> (Inl ai_minus_the_braids, w1)
                           | (Inr answerAndQuestions, w1) \<Rightarrow>
                               (case save_answers e question (formatDocumentsAsString documents)
                                       answerAndQuestions (db w1) of
                                  (ok, d1) \<Rightarrow>
                                    if ok then (Inr (JArr answerAndQuestions), w1\<lparr>db := d1\<rparr>)
                                    else (Inl ai_minus_the_braids, w1\<lparr>db := d1\<rparr>)))))))"

text \<open>The \<open>try\<close> block of \<open>qaOnPaperV2\<close>.\<close>

definition qaOnPaperV2_answer ::
  "env \<Rightarrow> world \<Rightarrow> string \<Rightarrow> string \<Rightarrow> json \<Rightarrow> (error + json list) \<times> world" where
  "qaOnPaperV2_answer e w question paperUrl notes =
    (let vectorStoreDir = ''vector_store/'' @ basename paperUrl;
         w1 = log (HnswLoad vectorStoreDir) w
     in case hnsw_load e vectorStoreDir of
          None \<Rightarrow> (Inl TypeError, w1)
        | Some store \<Rightarrow>
            (case getRelevantDocuments e store question of
               None \<Rightarrow> (Inl (Failure ''retriever failed''), log (RetrieverCall question) w1)
             | Some documents \<Rightarrow>
                 (case qaModelWithHNSW e (log (RetrieverCall question) w1)
                         question documents notes of
                    (answerAndQuestions, w2) \<Rightarrow>
                      (case answerAndQuestions of
                         [] \<Rightarrow> (Inl TypeError, w2)
                       | first # others \<Rightarrow>
                           (case get_prop first ''answer'' of
                              Inl err \<Rightarrow> (Inl err, w2)
                            | Inr answer \<Rightarrow>
                                if answer \<noteq> Some (JStr ''Error'') then
                                  (case get_prop first ''followupQuestions'' of
                                     Inl err \<Rightarrow> (Inl err, w2)
                                   | Inr followupQuestions \<Rightarrow>
                                       (case saveQAToLocalStorage (fsys w2) (time_now e)
                                               (''local_storage/'' @ basename paperUrl @ ''/qa_data.json'')
                                               question answer
                                               (formatDocumentsAsString documents)
                                               followupQuestions of
                                          Inl err \<Rightarrow> (Inl err, w2)
                                        | Inr s1 \<Rightarrow> (Inr answerAndQuestions, w2\<lparr>fsys := s1\<rparr>)))
                                else (Inr answerAndQuestions, w2))))))"

definition no_vector_store :: error where
  "no_vector_store = Failure ''No vector store directory found''"

definition no_text_found :: error where
  "no_text_found = Failure ''No text found''"

text \<open>The value \<open>qaOnPaperV2\<close> leaves in \<open>retrievedPaper\<close>: \<open>undefined\<close> unless the guarded
  read of \<open>local_storage/<basename>/data.json\<close> finds an entry for the URL.\<close>

definition retrievedPaper :: "filesys \<Rightarrow> string \<Rightarrow> error + json option" where
  "retrievedPaper s paperUrl =
    (case stored_entry s (''local_storage/'' @ basename paperUrl @ ''/data.json'') paperUrl of
       Inl err \<Rightarrow> Inl err
     | Inr None \<Rightarrow> Inr None
     | Inr (Some el) \<Rightarrow> get_prop el paperUrl)"

text \<open>\<open>qaOnPaperV2\<close>: the two checks are outside the \<open>try\<close>; \<open>Inr None\<close> is the \<open>null\<close> of
  the \<open>catch\<close>.\<close>

definition qaOnPaperV2 ::
  "env \<Rightarrow> world \<Rightarrow> string \<Rightarrow> string \<Rightarrow> (error + json list option) \<times> world" where
  "qaOnPaperV2 e w question paperUrl =
    (if \<not> existsSync (fsys w) (''vector_store/'' @ basename paperUrl)
     then (Inl no_vector_store, w)
     else
       case retrievedPaper (fsys w) paperUrl of
         Inl err \<Rightarrow> (Inl err, w)
       | Inr retrieved \<Rightarrow>
           (case opt_prop retrieved ''notes'' of
              None \<Rightarrow> (Inl no_text_found, w)
            | Some notes \<Rightarrow>
                if \<not> truthy (Some notes) then (Inl no_text_found, w)
                else
                  (case qaOnPaperV2_answer e w question paperUrl notes of
                     (Inl err, w1) \<Rightarrow> (Inr None, w1)
                   | (Inr answerAndQuestions, w1) \<Rightarrow> (Inr (Some answerAndQuestions), w1))))"

section \<open>Counting the records of a paper\<close>

text \<open>
  A record of the paper with source URL \<open>u\<close> is, in a storage file of
  \<open>saveToLocalStorage\<close>, an object of the stored array with the own key \<open>u\<close>; in
  \<open>notes.json\<close>, a property named \<open>u\<close>; in the \<open>arxiv_papers\<close> table, a row whose
  \<open>arxiv_url\<close> is \<open>u\<close>.
\<close>

definition is_record_of :: "string \<Rightarrow> json \<Rightarrow> bool" where
  "is_record_of u el = (case el of JObj kvs \<Rightarrow> u \<in> set (map fst kvs) | _ \<Rightarrow> False)"

definition stored_array :: "filesys \<Rightarrow> string \<Rightarrow> json list" where
  "stored_array s p = (case s p of Some (File (Json (JArr els))) \<Rightarrow> els | _ \<Rightarrow> [])"

definition local_count :: "filesys \<Rightarrow> string \<Rightarrow> string \<Rightarrow> nat" where
  "local_count s p u = length (filter (is_record_of u) (stored_array s p))"

definition notes_count :: "filesys \<Rightarrow> string \<Rightarrow> nat" where
  "notes_count s u =
    (case s notesPath of
       Some (File (Json (JObj kvs))) \<Rightarrow> length (filter (\<lambda>kv. fst kv = u) kvs)
     | _ \<Rightarrow> 0)"

definition db_count :: "database \<Rightarrow> string \<Rightarrow> nat" where
  "db_count d u = length (filter (\<lambda>r. p_url r = JStr u) (papers d))"

section \<open>Sample data\<close>

text \<open>Characters a decimal numeral is made of: digits, none of them a separator, a sign,
  a hexadecimal marker or white space.\<close>

definition plain :: "char \<Rightarrow> bool" where
  "plain c = (digit_val 10 c \<noteq> None \<and> c \<notin> {CHR '','', CHR ''-'', CHR ''+'', CHR ''x'', CHR ''X''} \<and> \<not> is_space c)"

definition demo_note :: "string \<Rightarrow> json" where
  "demo_note s = JObj [(''note'', JStr s), (''pageNumbers'', JArr [JNum 1])]"

definition demo_answer :: json where
  "demo_answer = JObj [(''answer'', JStr ''It is a survey.''), (''followupQuestions'', JArr [JStr ''Of what?''])]"

text \<open>A configured environment in which every collaborator fails, one in which the
  vector store and the model answer, and a paper with its stored records.\<close>

definition failing_env :: env where
  "failing_env =
    \<lparr>private_key_set = True, supabase_url_set = True,
     supabase_error = (\<lambda>request. False),
     time_now = ''2024-05-01T10:00:00.000Z'', uuidv4 = ''1b9d6bcd-bbfd-4b2d'',
     axios_get = (\<lambda>url. None), pdf_loader = (\<lambda>pdf. None),
     chain_invoke = (\<lambda>t inputs. None), embeddings_ok = (\<lambda>docs. False),
     similaritySearch = (\<lambda>table question url. None),
     hnsw_load = (\<lambda>dir. Some [\<lparr>pageContent = ''Surveys.'', metadata = []\<rparr>]),
     hnsw_save = (\<lambda>dir docs. False),
     getRelevantDocuments = (\<lambda>store question. Some store)\<rparr>"

definition answering_env :: env where
  "answering_env =
    failing_env\<lparr>chain_invoke := (\<lambda>t inputs.
      Some \<lparr>tool_calls = Some [\<lparr>call_name = ''questionAnswer'',
                                call_arguments = Json demo_answer\<rparr>]\<rparr>)\<rparr>"

definition demo_url :: string where
  "demo_url = ''http://x.org/a.pdf''"

definition demo_paper :: json where
  "demo_paper = JObj [(demo_url, paper_record ''2024-04-01T10:00:00.000Z'' [] demo_url ''A''
                                   [Some (demo_note ''n'')])]"

definition demo_qa :: json where
  "demo_qa = qa_record ''2024-04-02T10:00:00.000Z'' ''What is it?'' (Some (JStr ''A stored answer.''))
               ''Surveys.'' (Some (JArr []))"

definition demo_fs :: filesys where
  "demo_fs =
    [''vector_store/a.pdf'' \<mapsto> Dir,
     ''local_storage/a.pdf'' \<mapsto> Dir,
     ''local_storage/a.pdf/data.json'' \<mapsto> File (Json (JArr [demo_paper])),
     ''local_storage/a.pdf/qa_data.json'' \<mapsto> File (Json (JArr [demo_qa]))]"

definition demo_db :: database where
  "demo_db =
    \<lparr>papers = [\<lparr>p_paper = JStr ''Surveys.'', p_url = JStr demo_url,
                 p_notes = JArr [demo_note ''n''], p_name = JStr ''A''\<rparr>],
     qas = [\<lparr>q_question = JStr ''What is it?'', q_answer = JStr ''A stored answer.'',
              q_context = JStr ''Surveys.'', q_followups = JArr []\<rparr>],
     embedded = []\<rparr>"

definition demo_world :: world where
  "demo_world = \<lparr>fsys = demo_fs, db = demo_db, trace = []\<rparr>"

definition demo_inputs :: "(string \<times> string) list" where
  "demo_inputs = qa_inputs ''relevantDocuments'' ''What is it?'' ''n'' ''Surveys.''"

text \<open>An environment in which the select on the papers table comes back with an error
  while every other request and collaborator succeeds, and a world with the scratch
  directory of the loader.\<close>

definition ingest_env :: env where
  "ingest_env =
    \<lparr>private_key_set = True, supabase_url_set = True,
     supabase_error = (\<lambda>request. case request of SelectPaper url \<Rightarrow> True | _ \<Rightarrow> False),
     time_now = ''2024-05-01T10:00:00.000Z'', uuidv4 = ''1b9d6bcd-bbfd-4b2d'',
     axios_get = (\<lambda>url. Some (PdfData [''Surveys.''])),
     pdf_loader = (\<lambda>pdf. Some [\<lparr>pageContent = ''Surveys.'', metadata = []\<rparr>]),
     chain_invoke = (\<lambda>t inputs.
       Some \<lparr>tool_calls = Some [\<lparr>call_name = ''formatNotes'',
                                 call_arguments = Json (JObj [(''notes'', JArr [demo_note ''n''])])\<rparr>]\<rparr>),
     embeddings_ok = (\<lambda>docs. True),
     similaritySearch = (\<lambda>table question url. None),
     hnsw_load = (\<lambda>dir. None),
     hnsw_save = (\<lambda>dir docs. False),
     getRelevantDocuments = (\<lambda>store question. None)\<rparr>"

definition ingest_world :: world where
  "ingest_world = \<lparr>fsys = [''pdfs'' \<mapsto> Dir], db = demo_db, trace = []\<rparr>"

section \<open>Properties\<close>

subsection \<open>Decimal numerals are read back\<close>

lemma digit_cases:
  "d < 10 \<Longrightarrow> d = 0 \<or> d = 1 \<or> d = 2 \<or> d = 3 \<or> d = 4 \<or> d = 5 \<or> d = 6 \<or> d = 7 \<or> d = 8 \<or> d = (9::nat)"
  by arith

lemma digit_chars:
  "digit_char 0 = CHR ''0''" "digit_char (Suc 0) = CHR ''1''" "digit_char 2 = CHR ''2''"
  "digit_char 3 = CHR ''3''" "digit_char 4 = CHR ''4''" "digit_char 5 = CHR ''5''"
  "digit_char 6 = CHR ''6''" "digit_char 7 = CHR ''7''" "digit_char 8 = CHR ''8''"
  "digit_char 9 = CHR ''9''"
  by (simp_all add: digit_char_def)

lemma digit_val_digit_char: "d < 10 \<Longrightarrow> digit_val 10 (digit_char d) = Some d"
  by (drule digit_cases) (elim disjE; simp add: digit_chars digit_val_def)

lemma digit_char_plain:
  "d < 10 \<Longrightarrow> digit_char d \<notin> {CHR '','', CHR ''-'', CHR ''+'', CHR ''x'', CHR ''X''} \<and> \<not> is_space (digit_char d)"
  by (drule digit_cases) (elim disjE; simp add: digit_chars is_space_def)
lemma show_nat_plain: "list_all plain (show_nat n)"
proof (induction n rule: show_nat.induct)
  case (1 n)
  show ?case
  proof (cases "n < 10")
    case True
    then show ?thesis
      using digit_val_digit_char [of n] digit_char_plain [of n]
      by (subst show_nat.simps) (simp add: plain_def)
  next
    case False
    have "n mod 10 < 10" by simp
    then have "plain (digit_char (n mod 10))"
      using digit_val_digit_char [of "n mod 10"] digit_char_plain [of "n mod 10"]
      by (simp add: plain_def)
    with False 1 show ?thesis
      by (subst show_nat.simps) simp
  qed
qed

lemma show_nat_nonempty: "show_nat n \<noteq> []"
  by (subst show_nat.simps) simp

lemma show_nat_value:
  "foldl (\<lambda>acc d. acc * 10 + d) 0 (List.map_filter (digit_val 10) (show_nat n)) = n"
proof (induction n rule: show_nat.induct)
  case (1 n)
  show ?case
  proof (cases "n < 10")
    case True
    then show ?thesis
      using digit_val_digit_char [of n]
      by (subst show_nat.simps) (simp add: List.map_filter_simps)
  next
    case False
    have d: "digit_val 10 (digit_char (n mod 10)) = Some (n mod 10)"
      by (rule digit_val_digit_char) simp
    have "show_nat n = show_nat (n div 10) @ [digit_char (n mod 10)]"
      using False by (subst show_nat.simps) simp
    then show ?thesis
      using 1 False d by (simp add: List.map_filter_def)
  qed
qed

lemma to_number_exact: "\<bar>i\<bar> < 2 ^ 53 \<Longrightarrow> to_number i = Fin i"
proof -
  assume small: "\<bar>i\<bar> < 2 ^ 53"
  then have n: "nat \<bar>i\<bar> < 2 ^ 53"
    by (simp add: nat_less_iff)
  have "(2::nat) ^ 53 \<le> 2 ^ 1024"
    by (rule power_increasing) simp_all
  with n have "\<not> (2::nat) ^ 1024 \<le> nat \<bar>i\<bar>"
    by linarith
  with n show ?thesis
    by (simp add: to_number_def round_double_def Let_def del: power_numeral)
qed

lemma to_number_page: "n < 2 ^ 53 \<Longrightarrow> to_number (int n) = Fin (int n)"
proof (rule to_number_exact)
  assume "n < 2 ^ 53"
  then have "int n < int (2 ^ 53)" by (simp only: of_nat_less_iff)
  then show "\<bar>int n\<bar> < 2 ^ 53" by simp
qed

lemma parseInt_show_nat: "parseInt (trim (show_nat n)) = to_number (int n)"
proof -
  let ?s = "show_nat n"
  have pl: "list_all plain ?s" by (rule show_nat_plain)
  have ne: "?s \<noteq> []" by (rule show_nat_nonempty)
  have nosp: "\<forall>c \<in> set ?s. \<not> is_space c" using pl by (auto simp: list_all_iff plain_def)
  have t1: "dropWhile is_space ?s = ?s" using ne nosp by (cases ?s) auto
  have t2: "dropWhile is_space (rev ?s) = rev ?s"
    using ne nosp by (cases "rev ?s") (auto simp: )
  have tr: "trim ?s = ?s" by (simp add: trim_def t1 t2)
  obtain c cs where s: "?s = c # cs" using ne by (cases ?s) auto
  have c: "plain c" using pl s by simp
  have "takeWhile (\<lambda>c. digit_val 10 c \<noteq> None) ?s = ?s"
    using pl by (intro takeWhile_eq_all_conv [THEN iffD2]) (auto simp: list_all_iff plain_def)
  then have pd: "parse_digits 10 ?s = Some n"
    using c s show_nat_value [of n]
    by (simp only: parse_digits_def Let_def) (auto simp: plain_def List.map_filter_simps)
  have sign: "take 1 ?s \<noteq> ''-''" "take 1 ?s \<noteq> ''+''"
    using c s by (auto simp: plain_def)
  have hex: "take 2 ?s \<noteq> ''0x''" "take 2 ?s \<noteq> ''0X''"
  proof -
    show "take 2 ?s \<noteq> ''0x''"
    proof (cases cs)
      case Nil then show ?thesis using s by simp
    next
      case (Cons d ds)
      then have "plain d" using pl s by simp
      then show ?thesis using s Cons by (auto simp: plain_def)
    qed
    show "take 2 ?s \<noteq> ''0X''"
    proof (cases cs)
      case Nil then show ?thesis using s by simp
    next
      case (Cons d ds)
      then have "plain d" using pl s by simp
      then show ?thesis using s Cons by (auto simp: plain_def)
    qed
  qed
  show ?thesis
    using sign hex pd by (simp add: tr t1 parseInt_def Let_def)
qed

lemma split_comma_plain: "list_all plain w \<Longrightarrow> split_comma w = [w]"
  by (induction w) (auto simp: plain_def)

lemma split_comma_append:
  "list_all plain w \<Longrightarrow> split_comma (w @ CHR '','' # rest) = w # split_comma rest"
  by (induction w) (auto simp: plain_def)

lemma split_comma_join:
  "ws \<noteq> [] \<Longrightarrow> \<forall>w \<in> set ws. list_all plain w \<Longrightarrow> split_comma (join_comma ws) = ws"
proof (induction ws rule: join_comma.induct)
  case 1 then show ?case by simp
next
  case (2 x) then show ?case by (simp add: split_comma_plain)
next
  case (3 x y ys)
  then show ?case by (simp add: split_comma_append)
qed

lemma processPagesToDelete_roundtrip:
  "ps \<noteq> [] \<Longrightarrow> \<forall>p \<in> set ps. p < 2 ^ 53 \<Longrightarrow>
   processPagesToDelete (join_comma (map show_nat ps)) = map (\<lambda>p. Fin (int p)) ps"
proof -
  assume "ps \<noteq> []" and small: "\<forall>p \<in> set ps. p < 2 ^ 53"
  then have "split_comma (join_comma (map show_nat ps)) = map show_nat ps"
    by (intro split_comma_join) (auto simp: show_nat_plain)
  then show ?thesis
    using small by (simp add: processPagesToDelete_def parseInt_show_nat to_number_page)
qed

text \<open>Beyond \<open>2 ^ 53\<close> the digits are rounded.\<close>

lemma bit_length_example: "bit_length 9007199254740993 = 54"
  by (simp add: bit_length.simps)

lemma parse_digits_example: "parse_digits 10 ''9007199254740993'' = Some 9007199254740993"
  by (simp add: parse_digits_def digit_val_def List.map_filter_simps)

lemma round_double_example: "round_double 9007199254740993 = 9007199254740992"
  by (simp add: round_double_def bit_length_example Let_def)

lemma parseInt_rounds: "parseInt ''9007199254740993'' = Fin 9007199254740992"
  by (simp add: parseInt_def is_space_def parse_digits_example to_number_def
      round_double_example Let_def)

subsection \<open>Deleting pages in ascending order\<close>

lemma keep_pages_append:
  "keep_pages b S (xs @ ys) = keep_pages b S xs @ keep_pages (b + length xs) S ys"
  by (induction xs arbitrary: b) simp_all

lemma keep_pages_none:
  "(\<And>i. b \<le> i \<Longrightarrow> i < b + length xs \<Longrightarrow> i \<notin> S) \<Longrightarrow> keep_pages b S xs = xs"
  by (induction xs arbitrary: b) simp_all

lemma keep_pages_cong:
  "(\<And>i. b \<le> i \<Longrightarrow> i < b + length xs \<Longrightarrow> (i \<in> S) = (i \<in> T))
    \<Longrightarrow> keep_pages b S xs = keep_pages b T xs"
  by (induction xs arbitrary: b) simp_all

lemma keep_pages_nths: "keep_pages b S xs = nths xs {i. b + i \<notin> S}"
proof (induction xs arbitrary: b)
  case Nil
  then show ?case by simp
next
  case (Cons x xs)
  have "{j. Suc j \<in> {i. b + i \<notin> S}} = {i. Suc b + i \<notin> S}" by simp
  then show ?case using Cons [of "Suc b"] by (simp add: nths_Cons)
qed

lemma delete_loop_ascending:
  "sorted_wrt (<) ps \<Longrightarrow> \<forall>p \<in> set ps. off \<le> p \<and> p < off + length xs \<Longrightarrow>
   off + length xs < 2 ^ 53 \<Longrightarrow>
   delete_loop xs (Fin (int off)) (map (\<lambda>p. Fin (int p)) ps) = Inr (keep_pages off (set ps) xs)"
proof (induction ps arbitrary: xs off)
  case Nil
  then show ?case by (simp add: keep_pages_none)
next
  case (Cons p ps)
  let ?i = "p - off"
  let ?xs' = "take ?i xs @ drop (Suc ?i) xs"
  from Cons.prems have range: "off \<le> p" "p < off + length xs" by auto
  then have i: "?i < length xs" by arith
  have later: "\<forall>q \<in> set ps. p < q" using Cons.prems(1) by simp
  from range Cons.prems(3) have "p - off < 2 ^ 53" by arith
  then have "to_number (int (p - off)) = Fin (int (p - off))"
    by (rule to_number_page)
  then have sub: "num_sub (Fin (int p)) (Fin (int off)) = Fin (int ?i)"
    using range by (simp add: of_nat_diff)
  from i Cons.prems(3) have "Suc off < 2 ^ 53" by arith
  then have "to_number (int (Suc off)) = Fin (int (Suc off))"
    by (rule to_number_page)
  then have add: "num_add (Fin (int off)) (Fin 1) = Fin (int (Suc off))"
    by (simp add: add.commute)
  have rm: "removePage xs (num_sub (Fin (int p)) (Fin (int off))) = Inr ?xs'"
    using i by (simp only: sub) (simp add: removePage_def)
  have len: "length ?xs' = length xs - 1" using i by simp
  have "\<forall>q \<in> set ps. Suc off \<le> q \<and> q < Suc off + length ?xs'"
    using Cons.prems(2) later range i by (auto simp: len)
  moreover have "Suc off + length ?xs' < 2 ^ 53"
    using i Cons.prems(3) by (simp add: len)
  ultimately have IH:
    "delete_loop ?xs' (Fin (int (Suc off))) (map (\<lambda>p. Fin (int p)) ps)
       = Inr (keep_pages (Suc off) (set ps) ?xs')"
    using Cons.prems(1) by (intro Cons.IH) simp_all
  have parts: "xs = take ?i xs @ xs ! ?i # drop (Suc ?i) xs"
    using i by (simp add: id_take_nth_drop)
  have front1: "keep_pages (Suc off) (set ps) (take ?i xs) = take ?i xs"
    using later range i by (intro keep_pages_none) auto
  have front2: "keep_pages off (insert p (set ps)) (take ?i xs) = take ?i xs"
    using later range i by (intro keep_pages_none) auto
  have rear: "keep_pages (Suc p) (insert p (set ps)) (drop (Suc ?i) xs)
                = keep_pages (Suc p) (set ps) (drop (Suc ?i) xs)"
    by (intro keep_pages_cong) auto
  have li: "length (take ?i xs) = ?i" using i by simp
  have pi: "off + ?i = p" "Suc off + ?i = Suc p" using range by simp_all
  have "keep_pages off (insert p (set ps)) xs
        = keep_pages off (insert p (set ps)) (take ?i xs @ xs ! ?i # drop (Suc ?i) xs)"
    using parts by simp
  also have "\<dots> = take ?i xs @ keep_pages (Suc p) (set ps) (drop (Suc ?i) xs)"
    by (simp only: keep_pages_append front2 li pi keep_pages.simps insertI1 if_True rear)
  also have "\<dots> = keep_pages (Suc off) (set ps) ?xs'"
    by (simp only: keep_pages_append front1 li pi)
  finally have "keep_pages (Suc off) (set ps) ?xs' = keep_pages off (insert p (set ps)) xs"
    by simp
  with IH rm add show ?case
    by (simp del: num_sub.simps num_add.simps)
qed

lemma small_numbers:
  "to_number 0 = Fin 0" "to_number 1 = Fin 1" "to_number 2 = Fin 2" "to_number 3 = Fin 3"
  "to_number (- 1) = Fin (- 1)"
  by (simp_all add: to_number_exact)

text \<open>
  C3, as stated, fails: for the page numbers \<open>3,2\<close>, listed in descending order, on a
  document of four pages, \<open>deletePages\<close> removes pages 3 and 1 and returns pages 2 and 4,
  not pages 1 and 4.
\<close>

theorem deletePages_descending_counterexample:
  "processPagesToDelete ''3,2'' = [Fin 3, Fin 2] \<and>
   deletePages (PdfData [''A'', ''B'', ''C'', ''D'']) (processPagesToDelete ''3,2'')
     = Inr (PdfData [''B'', ''D'']) \<and>
   keep_pages 1 {3, 2} [''A'', ''B'', ''C'', ''D''] = [''A'', ''D''] \<and>
   deletePages (PdfData [''A'', ''B'', ''C'', ''D'']) (processPagesToDelete ''3,2'')
     \<noteq> Inr (PdfData (keep_pages 1 {3, 2} [''A'', ''B'', ''C'', ''D'']))"
  by (simp add: processPagesToDelete_def parseInt_def trim_def is_space_def parse_digits_def
      digit_val_def List.map_filter_simps deletePages_def removePage_def pdf_save_def
      small_numbers)

text \<open>
  C3, amended. For a document of fewer than \<open>2 ^ 53 - 1\<close> pages and a non-empty
  comma-separated string of in-range, 1-based decimal page numbers, \<open>processPagesToDelete\<close>
  parses the string into exactly those integers, in order. When the numbers are moreover
  listed in strictly ascending order, \<open>deletePages\<close> returns the original document with
  exactly the listed pages removed and the remaining pages in their original order; when
  every page is listed, the saved document holds a single blank page.
\<close>

theorem deletePages_ascending:
  "(ps \<noteq> [] \<and> list_all (\<lambda>p. 1 \<le> p \<and> p \<le> length pages) ps \<and>
    Suc (length pages) < 2 ^ 53 \<longrightarrow>
      processPagesToDelete (join_comma (map show_nat ps)) = map (\<lambda>p. Fin (int p)) ps) \<and>
   (ps \<noteq> [] \<and> sorted_wrt (<) ps \<and> list_all (\<lambda>p. 1 \<le> p \<and> p \<le> length pages) ps \<and>
    Suc (length pages) < 2 ^ 53 \<longrightarrow>
      deletePages (PdfData pages) (processPagesToDelete (join_comma (map show_nat ps)))
        = Inr (PdfData (if keep_pages 1 (set ps) pages = [] then [blank_page]
                        else keep_pages 1 (set ps) pages)))"
proof -
  have parse: "processPagesToDelete (join_comma (map show_nat ps)) = map (\<lambda>p. Fin (int p)) ps"
    if "ps \<noteq> []" and "list_all (\<lambda>p. 1 \<le> p \<and> p \<le> length pages) ps"
      and "Suc (length pages) < 2 ^ 53"
  proof (rule processPagesToDelete_roundtrip)
    show "ps \<noteq> []" by (rule that(1))
    show "\<forall>p \<in> set ps. p < 2 ^ 53"
    proof
      fix p assume "p \<in> set ps"
      with that(2) have "p \<le> length pages" by (simp add: list_all_iff)
      with that(3) show "p < 2 ^ 53" by linarith
    qed
  qed
  have cut: "deletePages (PdfData pages) (processPagesToDelete (join_comma (map show_nat ps)))
        = Inr (PdfData (if keep_pages 1 (set ps) pages = [] then [blank_page]
                        else keep_pages 1 (set ps) pages))"
    if "ps \<noteq> []" and "sorted_wrt (<) ps"
      and "list_all (\<lambda>p. 1 \<le> p \<and> p \<le> length pages) ps" and "Suc (length pages) < 2 ^ 53"
  proof -
    from that(3) have "\<forall>p \<in> set ps. 1 \<le> p \<and> p < 1 + length pages"
      by (auto simp: list_all_iff)
    moreover from that(4) have "1 + length pages < 2 ^ 53" by simp
    ultimately have "delete_loop pages (Fin (int 1)) (map (\<lambda>p. Fin (int p)) ps)
                 = Inr (keep_pages 1 (set ps) pages)"
      using that(2) by (intro delete_loop_ascending)
    then show ?thesis
      using parse [OF that(1) that(3) that(4)] by (simp add: deletePages_def pdf_save_def)
  qed
  from parse cut show ?thesis by blast
qed

theorem deletePages_ascending_witness:
  "join_comma (map show_nat [2, 3]) = ''2,3'' \<and>
   processPagesToDelete ''2,3'' = [Fin 2, Fin 3] \<and>
   sorted_wrt (<) [2, 3 :: nat] \<and>
   list_all (\<lambda>p. 1 \<le> p \<and> p \<le> length [''A'', ''B'', ''C'', ''D'']) [2, 3 :: nat] \<and>
   Suc (length [''A'', ''B'', ''C'', ''D'']) < 2 ^ 53 \<and>
   deletePages (PdfData [''A'', ''B'', ''C'', ''D'']) (processPagesToDelete ''2,3'')
     = Inr (PdfData [''A'', ''D''])"
proof -
  have j: "join_comma (map show_nat [2, 3]) = ''2,3''"
    by (simp add: show_nat.simps digit_char_def)
  have k: "keep_pages 1 (set [2, 3]) [''A'', ''B'', ''C'', ''D''] = [''A'', ''D'']"
    by simp
  have h: "[2, 3 :: nat] \<noteq> [] \<and> sorted_wrt (<) [2, 3 :: nat] \<and>
      list_all (\<lambda>p. 1 \<le> p \<and> p \<le> length [''A'', ''B'', ''C'', ''D'']) [2, 3 :: nat] \<and>
      Suc (length [''A'', ''B'', ''C'', ''D'']) < 2 ^ 53"
    by simp
  note inst = deletePages_ascending [of "[2, 3]" "[''A'', ''B'', ''C'', ''D'']", unfolded j k]
  have pd: "processPagesToDelete ''2,3'' = [Fin 2, Fin 3] \<and>
      deletePages (PdfData [''A'', ''B'', ''C'', ''D'']) (processPagesToDelete ''2,3'')
        = Inr (PdfData [''A'', ''D''])"
    using inst by auto
  show ?thesis using j pd h by blast
qed

text \<open>When every page is listed, what is saved is one blank page.\<close>

lemma deletePages_every_page:
  "deletePages (PdfData [''A'', ''B'']) (processPagesToDelete ''1,2'') = Inr (PdfData [blank_page])"
  by (simp add: processPagesToDelete_def parseInt_def trim_def is_space_def parse_digits_def
      digit_val_def List.map_filter_simps deletePages_def removePage_def pdf_save_def
      small_numbers)

subsection \<open>Parsers\<close>

lemma map_err_all_Inr:
  "list_all2 (\<lambda>x y. f x = Inr y) xs ys \<Longrightarrow> map_err f xs = Inr ys"
  by (induction xs ys rule: list_all2_induct) simp_all

lemma flat_undef_arrays: "flat_undef (map (\<lambda>ns. Some (JArr ns)) nss) = map Some (concat nss)"
  by (induction nss) (simp_all add: flat_undef_def)

lemma flat_json_objects: "list_all (\<lambda>v. \<exists>kvs. v = JObj kvs) vs \<Longrightarrow> flat_json vs = vs"
  by (induction vs) (auto simp: flat_json_def)

text \<open>
  C7. For a model output whose tool calls each carry, as JSON arguments, an object with a
  \<open>notes\<close> array, \<open>outputParser\<close> returns exactly those arrays concatenated in tool-call
  order; for tool calls whose arguments are JSON objects, \<open>answerOutputParser\<close> returns
  exactly those objects in order; both throw when the output has no \<open>tool_calls\<close>.
\<close>

theorem parsers_return_tool_call_arguments:
  "(tool_calls output = Some calls \<and>
    list_all2 (\<lambda>call ns. \<exists>kvs. call_arguments call = JSON_stringify (JObj kvs) \<and>
                 map_of kvs ''notes'' = Some (JArr ns)) calls nss
      \<longrightarrow> outputParser output = Inr (map Some (concat nss))) \<and>
   (tool_calls output = Some calls \<and>
    list_all2 (\<lambda>call v. call_arguments call = JSON_stringify v \<and> (\<exists>kvs. v = JObj kvs)) calls vs
      \<longrightarrow> answerOutputParser output = Inr vs) \<and>
   (tool_calls output = None
      \<longrightarrow> outputParser output = Inl missing_tool_calls \<and>
          answerOutputParser output = Inl missing_tool_calls)"
proof (intro conjI impI)
  assume a: "tool_calls output = Some calls \<and>
    list_all2 (\<lambda>call ns. \<exists>kvs. call_arguments call = JSON_stringify (JObj kvs) \<and>
                 map_of kvs ''notes'' = Some (JArr ns)) calls nss"
  then have "list_all2 (\<lambda>call y. (case JSON_parse (call_arguments call) of
                    Inl e \<Rightarrow> Inl e | Inr v \<Rightarrow> get_prop v ''notes'') = Inr y)
               calls (map (\<lambda>ns. Some (JArr ns)) nss)"
    by (auto simp: list_all2_map2 JSON_parse_def JSON_stringify_def get_prop_def
             elim!: list_all2_mono)
  then have "map_err (\<lambda>call. case JSON_parse (call_arguments call) of
                    Inl e \<Rightarrow> Inl e | Inr v \<Rightarrow> get_prop v ''notes'') calls
             = Inr (map (\<lambda>ns. Some (JArr ns)) nss)"
    by (rule map_err_all_Inr)
  with a show "outputParser output = Inr (map Some (concat nss))"
    by (simp add: outputParser_def flat_undef_arrays)
next
  assume a: "tool_calls output = Some calls \<and>
    list_all2 (\<lambda>call v. call_arguments call = JSON_stringify v \<and> (\<exists>kvs. v = JObj kvs)) calls vs"
  then have "list_all2 (\<lambda>call v. JSON_parse (call_arguments call) = Inr v) calls vs"
    by (auto simp: JSON_parse_def JSON_stringify_def elim!: list_all2_mono)
  then have m: "map_err (\<lambda>call. JSON_parse (call_arguments call)) calls = Inr vs"
    by (rule map_err_all_Inr)
  from a have "list_all (\<lambda>v. \<exists>kvs. v = JObj kvs) vs"
    by (auto simp: list_all_iff list_all2_conv_all_nth in_set_conv_nth)
  then have "flat_json vs = vs" by (rule flat_json_objects)
  with a m show "answerOutputParser output = Inr vs"
    by (simp add: answerOutputParser_def)
next
  assume "tool_calls output = None"
  then show "outputParser output = Inl missing_tool_calls"
    by (simp add: outputParser_def)
next
  assume "tool_calls output = None"
  then show "answerOutputParser output = Inl missing_tool_calls"
    by (simp add: answerOutputParser_def)
qed

theorem parsers_return_tool_call_arguments_witness:
  "outputParser \<lparr>tool_calls = Some
      [\<lparr>call_name = ''formatNotes'',
        call_arguments = Json (JObj [(''notes'', JArr [demo_note ''a'', demo_note ''b''])])\<rparr>,
       \<lparr>call_name = ''formatNotes'',
        call_arguments = Json (JObj [(''notes'', JArr [demo_note ''c''])])\<rparr>]\<rparr>
     = Inr [Some (demo_note ''a''), Some (demo_note ''b''), Some (demo_note ''c'')] \<and>
   answerOutputParser \<lparr>tool_calls = Some
      [\<lparr>call_name = ''questionAnswer'', call_arguments = Json demo_answer\<rparr>]\<rparr>
     = Inr [demo_answer] \<and>
   outputParser \<lparr>tool_calls = None\<rparr> = Inl missing_tool_calls \<and>
   answerOutputParser \<lparr>tool_calls = None\<rparr> = Inl missing_tool_calls"
  using
    parsers_return_tool_call_arguments [of
      "\<lparr>tool_calls = Some
        [\<lparr>call_name = ''formatNotes'',
          call_arguments = Json (JObj [(''notes'', JArr [demo_note ''a'', demo_note ''b''])])\<rparr>,
         \<lparr>call_name = ''formatNotes'',
          call_arguments = Json (JObj [(''notes'', JArr [demo_note ''c''])])\<rparr>]\<rparr>"
      "[\<lparr>call_name = ''formatNotes'',
          call_arguments = Json (JObj [(''notes'', JArr [demo_note ''a'', demo_note ''b''])])\<rparr>,
         \<lparr>call_name = ''formatNotes'',
          call_arguments = Json (JObj [(''notes'', JArr [demo_note ''c''])])\<rparr>]"
      "[[demo_note ''a'', demo_note ''b''], [demo_note ''c'']]" "[]"]
    parsers_return_tool_call_arguments [of
      "\<lparr>tool_calls = Some
        [\<lparr>call_name = ''questionAnswer'', call_arguments = Json demo_answer\<rparr>]\<rparr>"
      "[\<lparr>call_name = ''questionAnswer'', call_arguments = Json demo_answer\<rparr>]"
      "[]" "[demo_answer]"]
    parsers_return_tool_call_arguments [of "\<lparr>tool_calls = None\<rparr>" "[]" "[]" "[]"]
  by (simp add: JSON_stringify_def demo_answer_def)

subsection \<open>Local persistence\<close>

text \<open>
  C9. The local persistence helpers return normally and leave the file system as it was in
  two cases: \<open>saveToLocalStorage\<close> when the storage file exists and is empty (the paper
  record is dropped), and \<open>saveNotesLocally\<close> when \<open>generated_notes/notes.json\<close> does not
  exist (the file is not created).
\<close>

theorem silent_no_persist:
  "(s storagePath = Some (File Blank) \<longrightarrow>
      saveToLocalStorage s now storagePath docs url name notes = Inr s) \<and>
   (\<not> existsSync s notesPath \<longrightarrow> saveNotesLocally s paperUrl notes' = Inr s)"
  by (simp add: saveToLocalStorage_def saveNotesLocally_def existsSync_def readFileSync_def)

theorem silent_no_persist_witness:
  "[''local_storage/a.pdf/data.json'' \<mapsto> File Blank] ''local_storage/a.pdf/data.json''
      = Some (File Blank) \<and>
   saveToLocalStorage [''local_storage/a.pdf/data.json'' \<mapsto> File Blank] ''2024''
      ''local_storage/a.pdf/data.json'' [] ''http://x.org/a.pdf'' ''A'' [Some (JStr ''n'')]
      = Inr [''local_storage/a.pdf/data.json'' \<mapsto> File Blank] \<and>
   \<not> existsSync Map.empty notesPath \<and>
   saveNotesLocally Map.empty ''http://x.org/a.pdf'' [Some (JStr ''n'')] = Inr Map.empty"
  using silent_no_persist [of "[''local_storage/a.pdf/data.json'' \<mapsto> File Blank]"
      "''local_storage/a.pdf/data.json''" "''2024''" "[]" "''http://x.org/a.pdf''" "''A''"
      "[Some (JStr ''n'')]" "''http://x.org/a.pdf''" "[Some (JStr ''n'')]"]
    silent_no_persist [of Map.empty "''local_storage/a.pdf/data.json''" "''2024''" "[]"
      "''http://x.org/a.pdf''" "''A''" "[Some (JStr ''n'')]" "''http://x.org/a.pdf''"
      "[Some (JStr ''n'')]"]
  by (simp add: existsSync_def)

lemma saveToLocalStorage_appends:
  "s storagePath = Some (File (Json (JArr els))) \<Longrightarrow> some_hasOwnProperty els url = Inr False \<Longrightarrow>
   saveToLocalStorage s now storagePath docs url name newNotes =
     Inr (s(storagePath \<mapsto> File (Json (JArr
            (els @ [assign_fresh url (paper_record now docs url name newNotes)])))))"
  by (simp add: saveToLocalStorage_def existsSync_def readFileSync_def JSON_parse_def spread_def
      writeFileSync_def JSON_stringify_def)

lemma saveNotesLocally_overwrites:
  "s notesPath = Some (File (Json (JObj kvs))) \<Longrightarrow> url \<notin> set (map fst kvs) \<Longrightarrow>
   saveNotesLocally s url newNotes =
     Inr (s(notesPath \<mapsto> File (Json (assign_fresh url (JArr (map undef_null newNotes))))))"
  by (simp add: saveNotesLocally_def existsSync_def readFileSync_def JSON_parse_def
      Object_keys_def writeFileSync_def JSON_stringify_def)

text \<open>
  C2 on the code: \<open>generated_notes/notes.json\<close> holds the notes of a first paper;
  \<open>saveNotesLocally\<close> for a second URL writes an object with the second entry only, and
  the first paper's notes are gone.
\<close>

theorem saveNotesLocally_drops_saved_notes:
  "saveNotesLocally
     [notesPath \<mapsto> File (Json (JObj [(''http://x.org/a.pdf'', JArr [demo_note ''first paper''])]))]
     ''http://x.org/b.pdf'' [Some (demo_note ''second paper'')]
   = Inr [notesPath \<mapsto>
           File (Json (JObj [(''http://x.org/b.pdf'', JArr [demo_note ''second paper''])]))]"
  by (simp add: saveNotesLocally_def existsSync_def readFileSync_def JSON_parse_def
      Object_keys_def writeFileSync_def JSON_stringify_def assign_fresh_def undef_null_def)

subsection \<open>The hosted database\<close>

lemma take1_filter_find:
  "take (Suc 0) (filter P xs) = (case find P xs of None \<Rightarrow> [] | Some x \<Rightarrow> [x])"
  by (induction xs) simp_all

lemma rtrnExistingQa_find:
  "\<not> supabase_error e (SelectQa question) \<Longrightarrow>
   rtrnExistingQa e d question = find (\<lambda>r. q_question r = JStr question) (qas d)"
  by (simp add: rtrnExistingQa_def select_qas_def take1_filter_find split: option.splits)



subsection \<open>Question answering on sample data\<close>

lemma log_fsys [simp]: "fsys (log ev w) = fsys w"
  by (simp add: log_def)

lemma log_db [simp]: "db (log ev w) = db w"
  by (simp add: log_def)

lemma basename_demo: "basename ''http://x.org/a.pdf'' = ''a.pdf''" "basename demo_url = ''a.pdf''"
  by (simp_all add: basename_def demo_url_def)

lemma retrievedPaper_demo:
  "retrievedPaper demo_fs demo_url =
     Inr (Some (paper_record ''2024-04-01T10:00:00.000Z'' [] demo_url ''A'' [Some (demo_note ''n'')]))"
  by (simp add: retrievedPaper_def basename_demo stored_entry_def demo_fs_def existsSync_def
      readFileSync_def JSON_parse_def demo_paper_def hasOwnProperty_def get_prop_def demo_url_def)

lemma notes_demo:
  "opt_prop (Some (paper_record ''2024-04-01T10:00:00.000Z'' [] demo_url ''A'' [Some (demo_note ''n'')]))
     ''notes'' = Some (JArr [demo_note ''n''])"
  by (simp add: opt_prop_def paper_record_def get_prop_def undef_null_def)

lemma notesAsString_demo: "notesAsString (JArr [demo_note ''n'']) = Inr ''n''"
  by (simp add: notesAsString_def demo_note_def get_prop_def)

lemma vector_store_demo: "existsSync demo_fs ''vector_store/a.pdf''"
  by (simp add: demo_fs_def existsSync_def)

lemma saveQA_demo:
  "saveQAToLocalStorage demo_fs now ''local_storage/a.pdf/qa_data.json'' question answer
     context followupQuestions =
   Inr (demo_fs(''local_storage/a.pdf/qa_data.json'' \<mapsto>
          File (Json (JArr [demo_qa, qa_record now question answer context followupQuestions]))))"
  by (simp add: saveQAToLocalStorage_def demo_fs_def existsSync_def readFileSync_def
      JSON_parse_def spread_def writeFileSync_def JSON_stringify_def)

lemma qaOnPaperV2_failing_demo:
  "qaOnPaperV2 failing_env demo_world ''What is it?'' demo_url =
    (Inr (Some error_marker),
     demo_world\<lparr>trace := [HnswLoad ''vector_store/a.pdf'', RetrieverCall ''What is it?'',
                          ChainInvoke AnswerTool demo_inputs]\<rparr>)"
  by (simp add: qaOnPaperV2_def basename_demo demo_world_def retrievedPaper_demo notes_demo
      qaOnPaperV2_answer_def qaModelWithHNSW_def notesAsString_demo chain_result_def
      failing_env_def log_def formatDocumentsAsString_def demo_inputs_def
      vector_store_demo error_marker_def get_prop_def)

lemma qaOnPaperV2_answering_demo:
  "qaOnPaperV2 answering_env demo_world ''What is it?'' demo_url =
    (Inr (Some [demo_answer]),
     demo_world\<lparr>fsys := demo_fs(''local_storage/a.pdf/qa_data.json'' \<mapsto>
                    File (Json (JArr [demo_qa,
                      qa_record ''2024-05-01T10:00:00.000Z'' ''What is it?''
                        (Some (JStr ''It is a survey.'')) ''Surveys.''
                        (Some (JArr [JStr ''Of what?'']))]))),
                  trace := [HnswLoad ''vector_store/a.pdf'', RetrieverCall ''What is it?'',
                          ChainInvoke AnswerTool demo_inputs]\<rparr>)"
  by (simp add: qaOnPaperV2_def basename_demo demo_world_def retrievedPaper_demo notes_demo
      qaOnPaperV2_answer_def qaModelWithHNSW_def notesAsString_demo chain_result_def
      answering_env_def failing_env_def log_def formatDocumentsAsString_def demo_inputs_def
      answerOutputParser_def JSON_parse_def flat_json_def
      vector_store_demo demo_answer_def get_prop_def saveQA_demo)

text \<open>
  C1, as stated, fails for \<open>qaOnPaperV2\<close>: the question is already stored in
  \<open>qa_data.json\<close> with an answer, yet \<open>qaOnPaperV2\<close> invokes the model chain and returns
  the model's new answer.
\<close>

theorem qaOnPaperV2_ignores_stored_answer:
  "stored_array (fsys demo_world) ''local_storage/a.pdf/qa_data.json'' = [demo_qa] \<and>
   get_prop demo_qa ''question'' = Inr (Some (JStr ''What is it?'')) \<and>
   get_prop demo_qa ''answer'' = Inr (Some (JStr ''A stored answer.'')) \<and>
   fst (qaOnPaperV2 answering_env demo_world ''What is it?'' demo_url) = Inr (Some [demo_answer]) \<and>
   get_prop demo_answer ''answer'' = Inr (Some (JStr ''It is a survey.'')) \<and>
   trace (snd (qaOnPaperV2 answering_env demo_world ''What is it?'' demo_url)) =
     [HnswLoad ''vector_store/a.pdf'', RetrieverCall ''What is it?'',
      ChainInvoke AnswerTool (qa_inputs ''relevantDocuments'' ''What is it?'' ''n'' ''Surveys.'')]"
  by (simp add: qaOnPaperV2_answering_demo demo_inputs_def)
     (simp add: demo_world_def demo_fs_def stored_array_def demo_qa_def qa_record_def obj_of_def
       get_prop_def demo_answer_def)

text \<open>
  C1, amended. When the database is configured and answers the query, for every question
  whose exact text already exists as a persisted QA row, \<open>qaOnPaper\<close> returns the stored
  answer and follow-up questions of the first such row and leaves the world unchanged:
  no model call, no write. The paper URL does not enter the result.
\<close>

theorem qaOnPaper_returns_stored_answer:
  "private_key_set e \<and> supabase_url_set e \<and> \<not> supabase_error e (SelectQa question) \<and>
   find (\<lambda>r. q_question r = JStr question) (qas (db w)) = Some stored \<longrightarrow>
   qaOnPaper e w question paperUrl =
     (Inr (JObj [(''answer'', q_answer stored), (''followupQuestions'', q_followups stored)]), w)"
  by (simp add: qaOnPaper_def fromExistingIndex_def rtrnExistingQa_find)

theorem qaOnPaper_returns_stored_answer_witness:
  "private_key_set failing_env \<and> supabase_url_set failing_env \<and>
   \<not> supabase_error failing_env (SelectQa ''What is it?'') \<and>
   find (\<lambda>r. q_question r = JStr ''What is it?'') (qas (db demo_world))
     = Some \<lparr>q_question = JStr ''What is it?'', q_answer = JStr ''A stored answer.'',
              q_context = JStr ''Surveys.'', q_followups = JArr []\<rparr> \<and>
   qaOnPaper failing_env demo_world ''What is it?'' ''http://elsewhere.org/other.pdf'' =
     (Inr (JObj [(''answer'', JStr ''A stored answer.''), (''followupQuestions'', JArr [])]),
      demo_world)"
  using qaOnPaper_returns_stored_answer [of failing_env "''What is it?''" demo_world
      "\<lparr>q_question = JStr ''What is it?'', q_answer = JStr ''A stored answer.'',
              q_context = JStr ''Surveys.'', q_followups = JArr []\<rparr>"
      "''http://elsewhere.org/other.pdf''"]
  by (simp add: failing_env_def demo_world_def demo_db_def)

text \<open>
  C5. If the model chain that \<open>qaModelWithHNSW\<close> invokes on its inputs throws,
  \<open>qaModelWithHNSW\<close> returns the generic failure marker instead of raising. In a call
  of \<open>qaOnPaperV2\<close> that reaches the model (the directory exists, notes are found, the
  store loads and the retriever returns documents) and in which the chain throws on the
  inputs built from these notes and documents, \<open>qaOnPaperV2\<close> returns the marker and
  persists nothing: the file system, hence \<open>qa_data.json\<close>, and the database are as
  before; only the record of calls has grown.
\<close>

theorem chain_failure_persists_nothing:
  "(notesAsString notes = Inr notesStr \<and>
    chain_result e (qa_inputs ''relevantDocuments'' question notesStr
                      (formatDocumentsAsString documents)) = Inl err \<longrightarrow>
      fst (qaModelWithHNSW e w question documents notes) = error_marker \<and>
      fsys (snd (qaModelWithHNSW e w question documents notes)) = fsys w) \<and>
   (existsSync (fsys w) (''vector_store/'' @ basename paperUrl) \<and>
    retrievedPaper (fsys w) paperUrl = Inr retrieved \<and>
    opt_prop retrieved ''notes'' = Some notes \<and> truthy (Some notes) \<and>
    hnsw_load e (''vector_store/'' @ basename paperUrl) = Some store \<and>
    getRelevantDocuments e store question = Some documents \<and>
    notesAsString notes = Inr notesStr \<and>
    chain_result e (qa_inputs ''relevantDocuments'' question notesStr
                      (formatDocumentsAsString documents)) = Inl err \<longrightarrow>
      qaOnPaperV2 e w question paperUrl =
        (Inr (Some error_marker),
         w\<lparr>trace := trace w @
              [HnswLoad (''vector_store/'' @ basename paperUrl), RetrieverCall question,
               ChainInvoke AnswerTool
                 (qa_inputs ''relevantDocuments'' question notesStr
                    (formatDocumentsAsString documents))]\<rparr>) \<and>
      fsys (snd (qaOnPaperV2 e w question paperUrl)) = fsys w \<and>
      db (snd (qaOnPaperV2 e w question paperUrl)) = db w)"
proof (intro conjI impI)
  assume a: "notesAsString notes = Inr notesStr \<and>
    chain_result e (qa_inputs ''relevantDocuments'' question notesStr
                      (formatDocumentsAsString documents)) = Inl err"
  then show "fst (qaModelWithHNSW e w question documents notes) = error_marker"
    by (simp add: qaModelWithHNSW_def)
  from a show "fsys (snd (qaModelWithHNSW e w question documents notes)) = fsys w"
    by (simp add: qaModelWithHNSW_def)
next
  assume a: "existsSync (fsys w) (''vector_store/'' @ basename paperUrl) \<and>
    retrievedPaper (fsys w) paperUrl = Inr retrieved \<and>
    opt_prop retrieved ''notes'' = Some notes \<and> truthy (Some notes) \<and>
    hnsw_load e (''vector_store/'' @ basename paperUrl) = Some store \<and>
    getRelevantDocuments e store question = Some documents \<and>
    notesAsString notes = Inr notesStr \<and>
    chain_result e (qa_inputs ''relevantDocuments'' question notesStr
                      (formatDocumentsAsString documents)) = Inl err"
  then have m: "\<And>w'. qaModelWithHNSW e w' question documents notes =
      (error_marker, log (ChainInvoke AnswerTool
         (qa_inputs ''relevantDocuments'' question notesStr
            (formatDocumentsAsString documents))) w')"
    by (simp add: qaModelWithHNSW_def)
  have ans: "qaOnPaperV2_answer e w question paperUrl notes =
      (Inr error_marker,
       w\<lparr>trace := trace w @
              [HnswLoad (''vector_store/'' @ basename paperUrl), RetrieverCall question,
               ChainInvoke AnswerTool
                 (qa_inputs ''relevantDocuments'' question notesStr
                    (formatDocumentsAsString documents))]\<rparr>)"
    using a by (simp add: qaOnPaperV2_answer_def Let_def m)
      (simp add: error_marker_def get_prop_def log_def)
  with a show eq: "qaOnPaperV2 e w question paperUrl =
        (Inr (Some error_marker),
         w\<lparr>trace := trace w @
              [HnswLoad (''vector_store/'' @ basename paperUrl), RetrieverCall question,
               ChainInvoke AnswerTool
                 (qa_inputs ''relevantDocuments'' question notesStr
                    (formatDocumentsAsString documents))]\<rparr>)"
    by (simp add: qaOnPaperV2_def)
  from eq show "fsys (snd (qaOnPaperV2 e w question paperUrl)) = fsys w" by simp
  from eq show "db (snd (qaOnPaperV2 e w question paperUrl)) = db w" by simp
qed

theorem chain_failure_persists_nothing_witness:
  "notesAsString (JArr [demo_note ''n'']) = Inr ''n'' \<and>
   chain_result failing_env demo_inputs = Inl (Failure ''model call failed'') \<and>
   fst (qaModelWithHNSW failing_env demo_world ''What is it?''
          [\<lparr>pageContent = ''Surveys.'', metadata = []\<rparr>] (JArr [demo_note ''n'']))
     = error_marker \<and>
   existsSync (fsys demo_world) (''vector_store/'' @ basename demo_url) \<and>
   qaOnPaperV2 failing_env demo_world ''What is it?'' demo_url =
     (Inr (Some error_marker),
      demo_world\<lparr>trace := [HnswLoad ''vector_store/a.pdf'', RetrieverCall ''What is it?'',
                           ChainInvoke AnswerTool demo_inputs]\<rparr>) \<and>
   fsys (snd (qaOnPaperV2 failing_env demo_world ''What is it?'' demo_url)) = fsys demo_world \<and>
   db (snd (qaOnPaperV2 failing_env demo_world ''What is it?'' demo_url)) = db demo_world"
proof -
  let ?doc = "\<lparr>pageContent = ''Surveys.'', metadata = []\<rparr>"
  let ?rec = "paper_record ''2024-04-01T10:00:00.000Z'' [] demo_url ''A'' [Some (demo_note ''n'')]"
  have f: "formatDocumentsAsString [?doc] = ''Surveys.''"
    by (simp add: formatDocumentsAsString_def)
  have c: "chain_result failing_env demo_inputs = Inl (Failure ''model call failed'')"
    by (simp add: chain_result_def failing_env_def)
  have c': "chain_result failing_env (qa_inputs ''relevantDocuments'' ''What is it?'' ''n''
              (formatDocumentsAsString [?doc])) = Inl (Failure ''model call failed'')"
    using c by (simp add: f demo_inputs_def)
  have d: "existsSync (fsys demo_world) (''vector_store/'' @ basename demo_url)"
    by (simp add: basename_demo demo_world_def vector_store_demo)
  have r: "retrievedPaper (fsys demo_world) demo_url = Inr (Some ?rec)"
    by (simp add: demo_world_def retrievedPaper_demo)
  have l: "hnsw_load failing_env (''vector_store/'' @ basename demo_url) = Some [?doc]"
    "getRelevantDocuments failing_env [?doc] ''What is it?'' = Some [?doc]"
    by (simp_all add: failing_env_def)
  have t: "truthy (Some (JArr [demo_note ''n'']))" by simp
  note inst = chain_failure_persists_nothing [of "JArr [demo_note ''n'']" "''n''" failing_env
      "''What is it?''" "[?doc]" "Failure ''model call failed''" demo_world demo_url
      "Some ?rec" "[?doc]"]
  have 1: "fst (qaModelWithHNSW failing_env demo_world ''What is it?'' [?doc]
                  (JArr [demo_note ''n''])) = error_marker"
    using inst notesAsString_demo c' by blast
  have 2: "qaOnPaperV2 failing_env demo_world ''What is it?'' demo_url =
     (Inr (Some error_marker),
      demo_world\<lparr>trace := trace demo_world @
          [HnswLoad (''vector_store/'' @ basename demo_url), RetrieverCall ''What is it?'',
           ChainInvoke AnswerTool
             (qa_inputs ''relevantDocuments'' ''What is it?'' ''n''
                (formatDocumentsAsString [?doc]))]\<rparr>) \<and>
     fsys (snd (qaOnPaperV2 failing_env demo_world ''What is it?'' demo_url)) = fsys demo_world \<and>
     db (snd (qaOnPaperV2 failing_env demo_world ''What is it?'' demo_url)) = db demo_world"
    using inst notesAsString_demo c' d r notes_demo t l by blast
  have tr: "trace demo_world @
          [HnswLoad (''vector_store/'' @ basename demo_url), RetrieverCall ''What is it?'',
           ChainInvoke AnswerTool
             (qa_inputs ''relevantDocuments'' ''What is it?'' ''n''
                (formatDocumentsAsString [?doc]))]
        = [HnswLoad ''vector_store/a.pdf'', RetrieverCall ''What is it?'',
           ChainInvoke AnswerTool demo_inputs]"
    by (simp add: demo_world_def basename_demo f demo_inputs_def)
  note 3 = 2 [unfolded tr]
  from 1 3 c d notesAsString_demo show ?thesis
    by blast
qed

subsection \<open>The checks of \<open>qaOnPaperV2\<close>\<close>

lemma stored_entry_absent: "s p = None \<Longrightarrow> stored_entry s p u = Inr None"
  by (simp add: stored_entry_def existsSync_def)

lemma qaOnPaperV2_throw_keeps_world:
  "fst (qaOnPaperV2 e w question paperUrl) = Inl err \<Longrightarrow> snd (qaOnPaperV2 e w question paperUrl) = w"
  by (auto simp: qaOnPaperV2_def split: if_splits sum.splits option.splits prod.splits)

text \<open>For a storage file that holds an array of objects, none with an own property
  \<open>hasOwnProperty\<close>, the entry retrieved is the value stored under the URL in the first
  object that has it.\<close>

lemma some_hasOwnProperty_objects:
  "\<forall>kvs \<in> set objs. ''hasOwnProperty'' \<notin> set (map fst kvs) \<Longrightarrow>
   some_hasOwnProperty (map JObj objs) url = Inr (\<exists>kvs \<in> set objs. url \<in> set (map fst kvs))"
  by (induction objs) (auto simp: hasOwnProperty_def)

lemma find_hasOwnProperty_objects:
  "\<forall>kvs \<in> set objs. ''hasOwnProperty'' \<notin> set (map fst kvs) \<Longrightarrow>
   find_hasOwnProperty (map JObj objs) url
     = Inr (map_option JObj (find (\<lambda>kvs. url \<in> set (map fst kvs)) objs))"
  by (induction objs) (auto simp: hasOwnProperty_def)

lemma retrievedPaper_objects:
  assumes "s (''local_storage/'' @ basename url @ ''/data.json'') = Some (File (Json (JArr (map JObj objs))))"
    and "\<forall>kvs \<in> set objs. ''hasOwnProperty'' \<notin> set (map fst kvs)"
  shows "retrievedPaper s url =
     Inr (case find (\<lambda>kvs. url \<in> set (map fst kvs)) objs of
            None \<Rightarrow> None
          | Some kvs \<Rightarrow> map_of kvs url)"
proof (cases "find (\<lambda>kvs. url \<in> set (map fst kvs)) objs")
  case None
  then have "\<not> (\<exists>kvs \<in> set objs. url \<in> set (map fst kvs))"
    by (auto simp: find_None_iff)
  with assms None show ?thesis
    by (simp add: retrievedPaper_def stored_entry_def existsSync_def readFileSync_def
        JSON_parse_def some_hasOwnProperty_objects)
next
  case (Some kvs)
  then have "kvs \<in> set objs" "url \<in> set (map fst kvs)"
    by (auto simp: find_Some_iff)
  then have "\<exists>kvs \<in> set objs. url \<in> set (map fst kvs)"
    by blast
  with assms Some show ?thesis
    by (simp add: retrievedPaper_def stored_entry_def existsSync_def readFileSync_def
        JSON_parse_def some_hasOwnProperty_objects find_hasOwnProperty_objects get_prop_def)
qed

text \<open>
  C6, as stated, fails: with the vector-store directory present and an empty
  \<open>data.json\<close>, no stored notes are found, yet \<open>qaOnPaperV2\<close> throws the \<open>SyntaxError\<close> of
  \<open>JSON.parse\<close>, not \<open>No text found\<close>.
\<close>

theorem qaOnPaperV2_empty_store_counterexample:
  "existsSync [''vector_store/a.pdf'' \<mapsto> Dir, ''local_storage/a.pdf/data.json'' \<mapsto> File Blank]
     (''vector_store/'' @ basename demo_url) \<and>
   qaOnPaperV2 answering_env
     \<lparr>fsys = [''vector_store/a.pdf'' \<mapsto> Dir, ''local_storage/a.pdf/data.json'' \<mapsto> File Blank],
      db = demo_db, trace = []\<rparr> ''What is it?'' demo_url
   = (Inl SyntaxError,
      \<lparr>fsys = [''vector_store/a.pdf'' \<mapsto> Dir, ''local_storage/a.pdf/data.json'' \<mapsto> File Blank],
       db = demo_db, trace = []\<rparr>) \<and>
   SyntaxError \<noteq> no_text_found"
  by (simp add: qaOnPaperV2_def basename_demo existsSync_def retrievedPaper_def stored_entry_def
      readFileSync_def JSON_parse_def no_text_found_def)

text \<open>
  C6, amended. \<open>qaOnPaperV2\<close> returns an answer only when the vector-store directory
  exists and the guarded read of \<open>local_storage/<basename>/data.json\<close> finds an entry for
  the URL with truthy \<open>notes\<close>. A missing directory throws \<open>No vector store directory
  found\<close>. With the directory present, \<open>No text found\<close> is thrown when \<open>data.json\<close> is
  absent, or when it is read without error and yields no truthy notes for the URL; when
  reading it throws (an empty or malformed file, a \<open>null\<close> element), that error is what
  \<open>qaOnPaperV2\<close> throws. Every throw leaves the world as it was: no model or retriever
  call has been made.
\<close>

theorem qaOnPaperV2_checks_before_answering:
  "(\<not> existsSync (fsys w) (''vector_store/'' @ basename paperUrl) \<longrightarrow>
      qaOnPaperV2 e w question paperUrl = (Inl no_vector_store, w)) \<and>
   (existsSync (fsys w) (''vector_store/'' @ basename paperUrl) \<and>
    fsys w (''local_storage/'' @ basename paperUrl @ ''/data.json'') = None \<longrightarrow>
      qaOnPaperV2 e w question paperUrl = (Inl no_text_found, w)) \<and>
   (existsSync (fsys w) (''vector_store/'' @ basename paperUrl) \<and>
    retrievedPaper (fsys w) paperUrl = Inr retrieved \<and> \<not> truthy (opt_prop retrieved ''notes'') \<longrightarrow>
      qaOnPaperV2 e w question paperUrl = (Inl no_text_found, w)) \<and>
   (existsSync (fsys w) (''vector_store/'' @ basename paperUrl) \<and>
    retrievedPaper (fsys w) paperUrl = Inl err \<longrightarrow>
      qaOnPaperV2 e w question paperUrl = (Inl err, w)) \<and>
   (fst (qaOnPaperV2 e w question paperUrl) = Inr (Some answers) \<longrightarrow>
      existsSync (fsys w) (''vector_store/'' @ basename paperUrl) \<and>
      (\<exists>found. retrievedPaper (fsys w) paperUrl = Inr found \<and> truthy (opt_prop found ''notes''))) \<and>
   (fst (qaOnPaperV2 e w question paperUrl) = Inl thrown \<longrightarrow>
      snd (qaOnPaperV2 e w question paperUrl) = w)"
proof (intro conjI impI)
  assume "\<not> existsSync (fsys w) (''vector_store/'' @ basename paperUrl)"
  then show "qaOnPaperV2 e w question paperUrl = (Inl no_vector_store, w)"
    by (simp add: qaOnPaperV2_def)
next
  assume "existsSync (fsys w) (''vector_store/'' @ basename paperUrl) \<and>
    fsys w (''local_storage/'' @ basename paperUrl @ ''/data.json'') = None"
  then show "qaOnPaperV2 e w question paperUrl = (Inl no_text_found, w)"
    by (simp add: qaOnPaperV2_def retrievedPaper_def stored_entry_absent opt_prop_def)
next
  assume "existsSync (fsys w) (''vector_store/'' @ basename paperUrl) \<and>
    retrievedPaper (fsys w) paperUrl = Inr retrieved \<and> \<not> truthy (opt_prop retrieved ''notes'')"
  then show "qaOnPaperV2 e w question paperUrl = (Inl no_text_found, w)"
    by (auto simp: qaOnPaperV2_def split: option.splits)
next
  assume "existsSync (fsys w) (''vector_store/'' @ basename paperUrl) \<and>
    retrievedPaper (fsys w) paperUrl = Inl err"
  then show "qaOnPaperV2 e w question paperUrl = (Inl err, w)"
    by (simp add: qaOnPaperV2_def)
next
  assume a: "fst (qaOnPaperV2 e w question paperUrl) = Inr (Some answers)"
  then show "existsSync (fsys w) (''vector_store/'' @ basename paperUrl)"
    by (auto simp: qaOnPaperV2_def split: if_splits)
  from a show "\<exists>found. retrievedPaper (fsys w) paperUrl = Inr found \<and> truthy (opt_prop found ''notes'')"
    by (auto simp: qaOnPaperV2_def split: if_splits sum.splits option.splits prod.splits)
next
  assume "fst (qaOnPaperV2 e w question paperUrl) = Inl thrown"
  then show "snd (qaOnPaperV2 e w question paperUrl) = w"
    by (rule qaOnPaperV2_throw_keeps_world)
qed

theorem qaOnPaperV2_checks_before_answering_witness:
  "qaOnPaperV2 failing_env \<lparr>fsys = Map.empty, db = demo_db, trace = []\<rparr> ''What is it?'' demo_url
     = (Inl no_vector_store, \<lparr>fsys = Map.empty, db = demo_db, trace = []\<rparr>) \<and>
   qaOnPaperV2 failing_env \<lparr>fsys = [''vector_store/a.pdf'' \<mapsto> Dir], db = demo_db, trace = []\<rparr>
       ''What is it?'' demo_url
     = (Inl no_text_found, \<lparr>fsys = [''vector_store/a.pdf'' \<mapsto> Dir], db = demo_db, trace = []\<rparr>) \<and>
   qaOnPaperV2 failing_env
       \<lparr>fsys = [''vector_store/a.pdf'' \<mapsto> Dir,
                ''local_storage/a.pdf/data.json'' \<mapsto> File (Json (JArr []))],
        db = demo_db, trace = []\<rparr> ''What is it?'' demo_url
     = (Inl no_text_found,
        \<lparr>fsys = [''vector_store/a.pdf'' \<mapsto> Dir,
                 ''local_storage/a.pdf/data.json'' \<mapsto> File (Json (JArr []))],
         db = demo_db, trace = []\<rparr>) \<and>
   qaOnPaperV2 failing_env
       \<lparr>fsys = [''vector_store/a.pdf'' \<mapsto> Dir,
                ''local_storage/a.pdf/data.json'' \<mapsto> File Unparsable],
        db = demo_db, trace = []\<rparr> ''What is it?'' demo_url
     = (Inl SyntaxError,
        \<lparr>fsys = [''vector_store/a.pdf'' \<mapsto> Dir,
                 ''local_storage/a.pdf/data.json'' \<mapsto> File Unparsable],
         db = demo_db, trace = []\<rparr>) \<and>
   fst (qaOnPaperV2 answering_env demo_world ''What is it?'' demo_url) = Inr (Some [demo_answer]) \<and>
   existsSync (fsys demo_world) (''vector_store/'' @ basename demo_url) \<and>
   (\<exists>found. retrievedPaper (fsys demo_world) demo_url = Inr found \<and>
            truthy (opt_prop found ''notes''))"
proof -
  let ?w1 = "\<lparr>fsys = Map.empty, db = demo_db, trace = []\<rparr>"
  let ?w2 = "\<lparr>fsys = [''vector_store/a.pdf'' \<mapsto> Dir], db = demo_db, trace = []\<rparr>"
  let ?w3 = "\<lparr>fsys = [''vector_store/a.pdf'' \<mapsto> Dir,
                ''local_storage/a.pdf/data.json'' \<mapsto> File (Json (JArr []))],
        db = demo_db, trace = []\<rparr>"
  let ?w4 = "\<lparr>fsys = [''vector_store/a.pdf'' \<mapsto> Dir,
                ''local_storage/a.pdf/data.json'' \<mapsto> File Unparsable],
        db = demo_db, trace = []\<rparr>"
  have 1: "qaOnPaperV2 failing_env ?w1 ''What is it?'' demo_url = (Inl no_vector_store, ?w1)"
    using qaOnPaperV2_checks_before_answering [of ?w1 demo_url failing_env "''What is it?''"]
    by (simp add: existsSync_def)
  have 2: "qaOnPaperV2 failing_env ?w2 ''What is it?'' demo_url = (Inl no_text_found, ?w2)"
    using qaOnPaperV2_checks_before_answering [of ?w2 demo_url failing_env "''What is it?''"]
    by (simp add: existsSync_def basename_demo)
  have r3: "retrievedPaper (fsys ?w3) demo_url = Inr None"
    by (simp add: retrievedPaper_def basename_demo stored_entry_def existsSync_def
        readFileSync_def JSON_parse_def)
  have 3: "qaOnPaperV2 failing_env ?w3 ''What is it?'' demo_url = (Inl no_text_found, ?w3)"
    using qaOnPaperV2_checks_before_answering [of ?w3 demo_url failing_env "''What is it?''" None]
      r3
    by (simp add: existsSync_def basename_demo opt_prop_def)
  have r4: "retrievedPaper (fsys ?w4) demo_url = Inl SyntaxError"
    by (simp add: retrievedPaper_def basename_demo stored_entry_def existsSync_def
        readFileSync_def JSON_parse_def)
  have 4: "qaOnPaperV2 failing_env ?w4 ''What is it?'' demo_url = (Inl SyntaxError, ?w4)"
    using qaOnPaperV2_checks_before_answering [of ?w4 demo_url failing_env "''What is it?''" None
        SyntaxError] r4
    by (simp add: existsSync_def basename_demo)
  have a5: "fst (qaOnPaperV2 answering_env demo_world ''What is it?'' demo_url)
              = Inr (Some [demo_answer])"
    by (simp add: qaOnPaperV2_answering_demo)
  have 5: "existsSync (fsys demo_world) (''vector_store/'' @ basename demo_url) \<and>
     (\<exists>found. retrievedPaper (fsys demo_world) demo_url = Inr found \<and>
            truthy (opt_prop found ''notes''))"
    using qaOnPaperV2_checks_before_answering [of demo_world demo_url answering_env
        "''What is it?''" None SyntaxError "[demo_answer]"] a5
    by blast
  from 1 2 3 4 a5 5 show ?thesis by blast
qed

subsection \<open>The validity test of \<open>mainV2\<close>\<close>

lemma hasOwnProperty_error: "hasOwnProperty el k = Inl err \<Longrightarrow> err = TypeError"
  by (auto simp: hasOwnProperty_def split: json.splits if_splits)

lemma get_prop_error: "get_prop v k = Inl err \<Longrightarrow> err = TypeError"
  by (auto simp: get_prop_def split: json.splits)

lemma some_hasOwnProperty_error: "some_hasOwnProperty els k = Inl err \<Longrightarrow> err = TypeError"
  by (induction els) (auto split: sum.splits if_splits dest: hasOwnProperty_error)

lemma find_hasOwnProperty_error: "find_hasOwnProperty els k = Inl err \<Longrightarrow> err = TypeError"
  by (induction els) (auto split: sum.splits if_splits dest: hasOwnProperty_error)

lemma stored_entry_error:
  "stored_entry s p u = Inl err \<Longrightarrow> err = IOError \<or> err = SyntaxError \<or> err = TypeError"
  by (auto simp: stored_entry_def readFileSync_def JSON_parse_def
      split: if_splits option.splits node.splits content.splits json.splits sum.splits
      dest: some_hasOwnProperty_error find_hasOwnProperty_error)

lemma mainV2_accepted:
  assumes ok: "\<not> ((\<not> urlRegEx_test paperUrl \<and> \<not> existsSync (fsys w) paperUrl) \<or>
      \<not> ends_with paperUrl ''.pdf'')"
  shows "fst (mainV2 e w paperUrl paperName pagesToDelete) \<noteq> Inl invalid_pdf"
proof (cases "stored_entry (fsys w) (''generated_notes/'' @ basename paperUrl @ ''/data.json'') paperUrl")
  case (Inl err)
  then have "err \<noteq> invalid_pdf"
    by (auto simp: invalid_pdf_def dest: stored_entry_error)
  with Inl ok show ?thesis
    by (simp add: mainV2_def Let_def)
next
  case (Inr found)
  show ?thesis
  proof (cases found)
    case None
    with Inr ok show ?thesis
      by (simp add: mainV2_def Let_def split: prod.splits sum.splits)
  next
    case (Some el)
    show ?thesis
    proof (cases "get_prop el paperUrl")
      case (Inl err)
      then have "err \<noteq> invalid_pdf"
        by (auto simp: invalid_pdf_def dest: get_prop_error)
      with Inl Inr Some ok show ?thesis
        by (simp add: mainV2_def Let_def)
    next
      case v: (Inr stored)
      show ?thesis
      proof (cases stored)
        case None
        with v Inr Some ok show ?thesis
          by (simp add: mainV2_def Let_def invalid_pdf_def)
      next
        case st: (Some rec)
        show ?thesis
        proof (cases "get_prop rec ''notes''")
          case (Inl err)
          then have "err \<noteq> invalid_pdf"
            by (auto simp: invalid_pdf_def dest: get_prop_error)
          with Inl st v Inr Some ok show ?thesis
            by (simp add: mainV2_def Let_def)
        next
          case n: (Inr nts)
          with st v Inr Some ok show ?thesis
            by (simp add: mainV2_def Let_def)
        qed
      qed
    qed
  qed
qed

text \<open>
  C10. \<open>mainV2\<close> throws \<open>Invalid PDF or file path.\<close> if and only if the paper URL fails
  both acceptance tests (it does not match the pattern and names no existing file) or
  does not end with \<open>.pdf\<close>; so every input accepted for processing ends with \<open>.pdf\<close>.
\<close>

theorem mainV2_invalid_iff:
  "(fst (mainV2 e w paperUrl paperName pagesToDelete) = Inl invalid_pdf \<longleftrightarrow>
      (\<not> urlRegEx_test paperUrl \<and> \<not> existsSync (fsys w) paperUrl) \<or>
      \<not> ends_with paperUrl ''.pdf'') \<and>
   (fst (mainV2 e w paperUrl paperName pagesToDelete) \<noteq> Inl invalid_pdf \<longrightarrow>
      ends_with paperUrl ''.pdf'')"
proof -
  let ?bad = "(\<not> urlRegEx_test paperUrl \<and> \<not> existsSync (fsys w) paperUrl) \<or>
      \<not> ends_with paperUrl ''.pdf''"
  have thrown: "?bad \<Longrightarrow> fst (mainV2 e w paperUrl paperName pagesToDelete) = Inl invalid_pdf"
    by (simp add: mainV2_def Let_def)
  have other: "\<not> ?bad \<Longrightarrow> fst (mainV2 e w paperUrl paperName pagesToDelete) \<noteq> Inl invalid_pdf"
    by (rule mainV2_accepted)
  from thrown other show ?thesis by blast
qed

lemma urlRegEx_examples:
  "urlRegEx_test ''http://x.org/a.pdf''"
  "\<not> urlRegEx_test ''paper.txt''"
  "\<not> urlRegEx_test ''http://localhost/a.pdf''"
  "urlRegEx_test ''https://x.org/notapdf''"
  by (simp_all add: urlRegEx_test_def url_tail_ok_def line_terminator_def)

theorem mainV2_invalid_iff_witness:
  "fst (mainV2 failing_env demo_world ''paper.txt'' ''P'' []) = Inl invalid_pdf \<and>
   fst (mainV2 failing_env demo_world ''http://localhost/a.pdf'' ''P'' []) = Inl invalid_pdf \<and>
   fst (mainV2 failing_env demo_world ''https://x.org/notapdf'' ''P'' []) = Inl invalid_pdf \<and>
   fst (mainV2 failing_env demo_world ''http://x.org/a.pdf'' ''A'' []) \<noteq> Inl invalid_pdf \<and>
   ends_with ''http://x.org/a.pdf'' ''.pdf''"
proof -
  have ex: "\<not> existsSync (fsys demo_world) ''paper.txt''"
    "\<not> existsSync (fsys demo_world) ''http://localhost/a.pdf''"
    by (simp_all add: demo_world_def demo_fs_def existsSync_def)
  have en: "ends_with ''http://x.org/a.pdf'' ''.pdf''" "\<not> ends_with ''https://x.org/notapdf'' ''.pdf''"
    by (simp_all add: ends_with_def)
  have 1: "fst (mainV2 failing_env demo_world ''paper.txt'' ''P'' []) = Inl invalid_pdf"
    using mainV2_invalid_iff [of failing_env demo_world "''paper.txt''" "''P''" "[]"]
      ex urlRegEx_examples by blast
  have 2: "fst (mainV2 failing_env demo_world ''http://localhost/a.pdf'' ''P'' []) = Inl invalid_pdf"
    using mainV2_invalid_iff [of failing_env demo_world "''http://localhost/a.pdf''" "''P''" "[]"]
      ex urlRegEx_examples by blast
  have 3: "fst (mainV2 failing_env demo_world ''https://x.org/notapdf'' ''P'' []) = Inl invalid_pdf"
    using mainV2_invalid_iff [of failing_env demo_world "''https://x.org/notapdf''" "''P''" "[]"]
      en by blast
  have 4: "fst (mainV2 failing_env demo_world ''http://x.org/a.pdf'' ''A'' []) \<noteq> Inl invalid_pdf"
    using mainV2_invalid_iff [of failing_env demo_world "''http://x.org/a.pdf''" "''A''" "[]"]
      en urlRegEx_examples by blast
  from 1 2 3 4 en show ?thesis by blast
qed

subsection \<open>One record per source URL\<close>

text \<open>An empty store holds no record of any URL.\<close>

lemma empty_store_no_record:
  "db_count \<lparr>papers = [], qas = [], embedded = []\<rparr> u = 0"
  "local_count Map.empty p u = 0"
  "notes_count Map.empty u = 0"
  by (simp_all add: db_count_def local_count_def stored_array_def notes_count_def)

text \<open>A call of \<open>main\<close> whose select succeeds leaves the world as it was (it returns the
  stored row's notes, or throws before any fetch).\<close>

lemma main_select_ok:
  assumes "\<not> supabase_error e (SelectPaper paperUrl)"
  shows "snd (main e w paperUrl paperName pagesToDelete) = w"
proof (cases "fromExistingIndex e")
  case (Inl err)
  then show ?thesis by (simp add: main_def)
next
  case (Inr u)
  show ?thesis
  proof (cases "ends_with paperUrl ''.pdf''")
    case False
    with Inr show ?thesis by (simp add: main_def)
  next
    case True
    from assms have "getPaper e (db w) paperUrl \<noteq> Inr None"
      by (simp add: getPaper_def select_papers_def split: list.splits)
    with Inr True show ?thesis
      by (cases "getPaper e (db w) paperUrl") (auto simp: main_def split: option.splits)
  qed
qed

text \<open>\<open>addPaper\<close> itself makes no check: whenever its insert succeeds, the table holds one
  more row of the URL.\<close>

lemma addPaper_unchecked:
  "\<not> supabase_error e (InsertPaper \<lparr>p_paper = JStr paper, p_url = JStr url,
        p_notes = JArr (map undef_null newNotes), p_name = JStr name\<rparr>) \<Longrightarrow>
   db_count (addPaper e d paper url newNotes name) url = Suc (db_count d url)"
  by (simp add: addPaper_def db_count_def Let_def)

text \<open>A call of \<open>main\<close> for a stored URL whose select is answered with an error and whose
  insert succeeds.\<close>

lemma main_ingest_demo:
  "main ingest_env ingest_world demo_url ''A'' [] =
    (Inr (NewNotes [Some (demo_note ''n'')]),
     \<lparr>fsys = [''pdfs'' \<mapsto> Dir],
      db = \<lparr>papers = papers demo_db @
                [\<lparr>p_paper = JStr ''Surveys.'', p_url = JStr demo_url,
                  p_notes = JArr [demo_note ''n''], p_name = JStr ''A''\<rparr>],
            qas = qas demo_db,
            embedded = [\<lparr>pageContent = ''Surveys.'', metadata = [(''url'', JStr demo_url)]\<rparr>]\<rparr>,
      trace = [HttpGet demo_url, PdfLoad, ChainInvoke NotesTool [(''paper'', ''Surveys.'')],
               AddDocuments]\<rparr>)"
  by (simp add: main_def fromExistingIndex_def ingest_env_def ingest_world_def getPaper_def
      select_papers_def main_ingest_def loadPdfFromUrl_def convertPdfToDocuments_def
      writeFileSync_def parent_def generateNotes_def outputParser_def JSON_parse_def
      get_prop_def flat_undef_def formatDocumentsAsString_def addPaper_def log_def with_url_def
      undef_null_def Let_def demo_url_def ends_with_def demo_db_def)

lemma not_found_no_record:
  "some_hasOwnProperty els k = Inr False \<Longrightarrow> filter (is_record_of k) els = []"
proof (induction els)
  case Nil
  then show ?case by simp
next
  case (Cons el els)
  then show ?case
    by (cases el) (auto simp: hasOwnProperty_def is_record_of_def split: if_splits sum.splits)
qed

lemma chars_no_record: "filter (is_record_of u) (map (\<lambda>c. JStr [c]) str) = []"
  by (induction str) (simp_all add: is_record_of_def)

lemma stored_array_upd:
  "stored_array (s(p \<mapsto> File (Json (JArr els)))) p = els"
  by (simp add: stored_array_def)

lemma saveToLocalStorage_count:
  assumes "saveToLocalStorage s now storagePath docs url name notes = Inr s'"
    and "local_count s storagePath u \<le> 1"
  shows "local_count s' storagePath u \<le> 1"
proof (cases "s storagePath")
  case None
  with assms(1) have "s' = s(storagePath \<mapsto>
      File (Json (JArr [JObj [(url, paper_record now docs url name notes)]])))"
    by (auto simp: saveToLocalStorage_def existsSync_def writeFileSync_def JSON_stringify_def
        split: if_splits)
  then show ?thesis
    by (simp add: local_count_def stored_array_upd is_record_of_def)
next
  case (Some nd)
  show ?thesis
  proof (cases nd)
    case Dir
    with Some assms(1) show ?thesis
      by (simp add: saveToLocalStorage_def existsSync_def readFileSync_def)
  next
    case (File c)
    show ?thesis
    proof (cases "c = Blank")
      case True
      with Some File assms show ?thesis
        by (simp add: saveToLocalStorage_def existsSync_def readFileSync_def)
    next
      case False
      with Some File assms(1) obtain parsed copy found where
        p: "c = Json parsed" and sp: "spread parsed = Inr copy"
        and f: "some_hasOwnProperty copy url = Inr found"
        and r: "(if \<not> found
                 then writeFileSync s storagePath (JSON_stringify
                        (JArr (copy @ [assign_fresh url (paper_record now docs url name notes)])))
                 else Inr s) = Inr s'"
        by (auto simp: saveToLocalStorage_def existsSync_def readFileSync_def JSON_parse_def
            split: content.splits sum.splits)
      show ?thesis
      proof (cases found)
        case True
        with r assms(2) show ?thesis by simp
      next
        case nf: False
        with r Some File have s': "s' = s(storagePath \<mapsto> File (Json
              (JArr (copy @ [assign_fresh url (paper_record now docs url name notes)]))))"
          by (simp add: writeFileSync_def JSON_stringify_def)
        from nf f have none: "filter (is_record_of url) copy = []"
          by (simp add: not_found_no_record)
        have old: "length (filter (is_record_of u) copy) \<le> 1"
        proof (cases parsed)
          case (JArr xs)
          with sp Some File p assms(2) show ?thesis
            by (simp add: spread_def local_count_def stored_array_def)
        next
          case (JStr str)
          with sp show ?thesis by (auto simp: spread_def chars_no_record)
        qed (use sp in \<open>simp_all add: spread_def\<close>)
        show ?thesis
        proof (cases "u = url")
          case True
          with none show ?thesis
            by (simp add: s' local_count_def stored_array_upd assign_fresh_def is_record_of_def)
        next
          case False
          with old show ?thesis
            by (simp add: s' local_count_def stored_array_upd assign_fresh_def is_record_of_def)
        qed
      qed
    qed
  qed
qed

lemma saveNotesLocally_result:
  "saveNotesLocally s url notes = Inr s' \<Longrightarrow>
   s' = s \<or> s' = s(notesPath \<mapsto> File (Json (assign_fresh url (JArr (map undef_null notes)))))"
  by (auto simp: saveNotesLocally_def writeFileSync_def JSON_stringify_def
      split: if_splits sum.splits option.splits node.splits)

lemma saveNotesLocally_count:
  assumes "saveNotesLocally s url notes = Inr s'" and "notes_count s u \<le> 1"
  shows "notes_count s' u \<le> 1"
  using saveNotesLocally_result [OF assms(1)] assms(2)
  by (auto simp: notes_count_def assign_fresh_def)

text \<open>
  C4, as stated, fails: the papers table holds one row for a URL; in a call of \<open>main\<close> for
  that URL in which the select comes back with an error, \<open>getPaper\<close> returns \<open>null\<close>,
  \<open>main\<close> ingests the paper and its insert succeeds, and the table holds two rows for
  the URL.
\<close>

theorem main_inserts_second_row:
  "db_count (db ingest_world) demo_url = 1 \<and>
   getPaper ingest_env (db ingest_world) demo_url = Inr None \<and>
   fst (main ingest_env ingest_world demo_url ''A'' []) = Inr (NewNotes [Some (demo_note ''n'')]) \<and>
   db_count (db (snd (main ingest_env ingest_world demo_url ''A'' []))) demo_url = 2"
  by (simp add: main_ingest_demo)
     (simp add: db_count_def ingest_world_def demo_db_def getPaper_def select_papers_def
       ingest_env_def)

text \<open>
  C4, amended. \<open>main\<close> returns the stored notes and leaves the world unchanged when
  \<open>getPaper\<close> finds the URL, and it changes the papers table in no call in which its
  select succeeds; \<open>saveToLocalStorage\<close> leaves the file system unchanged when an
  element of the stored array owns the URL; \<open>saveNotesLocally\<close> leaves it unchanged
  when the URL is a key of \<open>notes.json\<close>. For every URL \<open>u\<close>, a store with at most
  one record of \<open>u\<close> has at most one after \<open>main\<close> with a successful select, after
  \<open>saveToLocalStorage\<close> and after \<open>saveNotesLocally\<close>.
\<close>

theorem paper_store_one_record_per_url:
  "(private_key_set e \<and> supabase_url_set e \<and> ends_with paperUrl ''.pdf'' \<and>
    getPaper e (db w) paperUrl = Inr (Some existingPaper) \<longrightarrow>
      main e w paperUrl paperName pagesToDelete
        = (Inr (StoredNotes (Some (p_notes existingPaper))), w)) \<and>
   (s storagePath = Some (File (Json (JArr els))) \<and> some_hasOwnProperty els url = Inr True \<longrightarrow>
      saveToLocalStorage s now storagePath docs url name newNotes = Inr s) \<and>
   (s notesPath = Some (File (Json (JObj kvs))) \<and> url \<in> set (map fst kvs) \<longrightarrow>
      saveNotesLocally s url newNotes = Inr s) \<and>
   (\<not> supabase_error e (SelectPaper paperUrl) \<and> db_count (db w) u \<le> 1 \<longrightarrow>
      papers (db (snd (main e w paperUrl paperName pagesToDelete))) = papers (db w) \<and>
      db_count (db (snd (main e w paperUrl paperName pagesToDelete))) u \<le> 1) \<and>
   (saveToLocalStorage s now storagePath docs url name newNotes = Inr s' \<and>
    local_count s storagePath u \<le> 1 \<longrightarrow> local_count s' storagePath u \<le> 1) \<and>
   (saveNotesLocally s url newNotes = Inr s'' \<and> notes_count s u \<le> 1 \<longrightarrow> notes_count s'' u \<le> 1)"
proof (intro conjI impI)
  assume "private_key_set e \<and> supabase_url_set e \<and> ends_with paperUrl ''.pdf'' \<and>
    getPaper e (db w) paperUrl = Inr (Some existingPaper)"
  then show "main e w paperUrl paperName pagesToDelete
        = (Inr (StoredNotes (Some (p_notes existingPaper))), w)"
    by (simp add: main_def fromExistingIndex_def)
next
  assume "s storagePath = Some (File (Json (JArr els))) \<and> some_hasOwnProperty els url = Inr True"
  then show "saveToLocalStorage s now storagePath docs url name newNotes = Inr s"
    by (simp add: saveToLocalStorage_def existsSync_def readFileSync_def JSON_parse_def spread_def)
next
  assume "s notesPath = Some (File (Json (JObj kvs))) \<and> url \<in> set (map fst kvs)"
  then show "saveNotesLocally s url newNotes = Inr s"
    by (simp add: saveNotesLocally_def existsSync_def readFileSync_def JSON_parse_def
        Object_keys_def)
next
  assume a: "\<not> supabase_error e (SelectPaper paperUrl) \<and> db_count (db w) u \<le> 1"
  then show "papers (db (snd (main e w paperUrl paperName pagesToDelete))) = papers (db w)"
    by (simp add: main_select_ok)
  from a show "db_count (db (snd (main e w paperUrl paperName pagesToDelete))) u \<le> 1"
    by (simp add: main_select_ok)
next
  assume "saveToLocalStorage s now storagePath docs url name newNotes = Inr s' \<and>
    local_count s storagePath u \<le> 1"
  then show "local_count s' storagePath u \<le> 1"
    using saveToLocalStorage_count by blast
next
  assume "saveNotesLocally s url newNotes = Inr s'' \<and> notes_count s u \<le> 1"
  then show "notes_count s'' u \<le> 1"
    using saveNotesLocally_count by blast
qed

theorem paper_store_one_record_per_url_witness:
  "main failing_env demo_world demo_url ''A'' []
     = (Inr (StoredNotes (Some (JArr [demo_note ''n'']))), demo_world) \<and>
   saveToLocalStorage demo_fs ''2024-05-01'' ''local_storage/a.pdf/data.json'' [] demo_url ''A'' []
     = Inr demo_fs \<and>
   saveNotesLocally [notesPath \<mapsto> File (Json (JObj [(demo_url, JArr [demo_note ''n''])]))]
       demo_url [Some (demo_note ''m'')]
     = Inr [notesPath \<mapsto> File (Json (JObj [(demo_url, JArr [demo_note ''n''])]))] \<and>
   \<not> supabase_error failing_env (SelectPaper demo_url) \<and>
   db_count (db demo_world) demo_url \<le> 1 \<and>
   db_count (db (snd (main failing_env demo_world demo_url ''A'' []))) demo_url \<le> 1 \<and>
   saveToLocalStorage demo_fs ''2024-05-01'' ''local_storage/a.pdf/data.json'' []
       ''http://x.org/b.pdf'' ''B'' []
     = Inr (demo_fs(''local_storage/a.pdf/data.json'' \<mapsto> File (Json (JArr [demo_paper,
         JObj [(''http://x.org/b.pdf'',
                paper_record ''2024-05-01'' [] ''http://x.org/b.pdf'' ''B'' [])]])))) \<and>
   local_count demo_fs ''local_storage/a.pdf/data.json'' ''http://x.org/b.pdf'' \<le> 1 \<and>
   local_count (demo_fs(''local_storage/a.pdf/data.json'' \<mapsto> File (Json (JArr [demo_paper,
         JObj [(''http://x.org/b.pdf'',
                paper_record ''2024-05-01'' [] ''http://x.org/b.pdf'' ''B'' [])]]))))
       ''local_storage/a.pdf/data.json'' ''http://x.org/b.pdf'' \<le> 1 \<and>
   saveNotesLocally [notesPath \<mapsto> File (Json (JObj [(demo_url, JArr [demo_note ''n''])]))]
       ''http://x.org/b.pdf'' [Some (demo_note ''m'')]
     = Inr [notesPath \<mapsto> File (Json (JObj [(''http://x.org/b.pdf'', JArr [demo_note ''m''])]))] \<and>
   notes_count [notesPath \<mapsto> File (Json (JObj [(demo_url, JArr [demo_note ''n''])]))]
       ''http://x.org/b.pdf'' \<le> 1 \<and>
   notes_count [notesPath \<mapsto> File (Json (JObj [(''http://x.org/b.pdf'', JArr [demo_note ''m''])]))]
       ''http://x.org/b.pdf'' \<le> 1"
proof -
  let ?path = "''local_storage/a.pdf/data.json''"
  let ?b = "''http://x.org/b.pdf''"
  let ?row = "\<lparr>p_paper = JStr ''Surveys.'', p_url = JStr demo_url,
                 p_notes = JArr [demo_note ''n''], p_name = JStr ''A''\<rparr>"
  let ?sN = "[notesPath \<mapsto> File (Json (JObj [(demo_url, JArr [demo_note ''n''])]))]"
  let ?sN' = "[notesPath \<mapsto> File (Json (JObj [(?b, JArr [demo_note ''m''])]))]"
  let ?s' = "demo_fs(?path \<mapsto> File (Json (JArr [demo_paper,
         JObj [(?b, paper_record ''2024-05-01'' [] ?b ''B'' [])]])))"
  note T = paper_store_one_record_per_url
  have env: "private_key_set failing_env" "supabase_url_set failing_env"
    by (simp_all add: failing_env_def)
  have url: "ends_with demo_url ''.pdf''"
    by (simp add: demo_url_def ends_with_def)
  have g: "getPaper failing_env (db demo_world) demo_url = Inr (Some ?row)"
    by (simp add: getPaper_def select_papers_def failing_env_def demo_world_def demo_db_def)
  have 1: "main failing_env demo_world demo_url ''A'' []
     = (Inr (StoredNotes (Some (JArr [demo_note ''n'']))), demo_world)"
    using T [of failing_env demo_url demo_world ?row "''A''" "[]"] env url g by simp
  have f2: "demo_fs ?path = Some (File (Json (JArr [demo_paper])))"
    by (simp add: demo_fs_def)
  have h2: "some_hasOwnProperty [demo_paper] demo_url = Inr True"
    by (simp add: demo_paper_def hasOwnProperty_def demo_url_def)
  have 2: "saveToLocalStorage demo_fs ''2024-05-01'' ?path [] demo_url ''A'' [] = Inr demo_fs"
    using T [where s = demo_fs and storagePath = ?path and els = "[demo_paper]" and url = demo_url
        and now = "''2024-05-01''" and docs = "[]" and name = "''A''" and newNotes = "[]"] f2 h2
    by blast
  have 3: "saveNotesLocally ?sN demo_url [Some (demo_note ''m'')] = Inr ?sN"
    using T [where s = ?sN and kvs = "[(demo_url, JArr [demo_note ''n''])]" and url = demo_url
        and newNotes = "[Some (demo_note ''m'')]"]
    by simp
  have c4: "db_count (db demo_world) demo_url \<le> 1"
    by (simp add: db_count_def demo_world_def demo_db_def)
  have s4: "\<not> supabase_error failing_env (SelectPaper demo_url)"
    by (simp add: failing_env_def)
  have 4: "db_count (db (snd (main failing_env demo_world demo_url ''A'' []))) demo_url \<le> 1"
    using T [where w = demo_world and u = demo_url and e = failing_env and paperUrl = demo_url
        and paperName = "''A''" and pagesToDelete = "[]"] c4 s4
    by blast
  have e5: "saveToLocalStorage demo_fs ''2024-05-01'' ?path [] ?b ''B'' [] = Inr ?s'"
    by (simp add: saveToLocalStorage_def demo_fs_def existsSync_def readFileSync_def
        JSON_parse_def spread_def demo_paper_def hasOwnProperty_def demo_url_def
        writeFileSync_def JSON_stringify_def assign_fresh_def)
  have c5: "local_count demo_fs ?path ?b \<le> 1"
    by (simp add: local_count_def stored_array_def demo_fs_def demo_paper_def is_record_of_def
        demo_url_def)
  have 5: "local_count ?s' ?path ?b \<le> 1"
    using T [where s = demo_fs and storagePath = ?path and url = ?b and s' = ?s' and u = ?b
        and now = "''2024-05-01''" and docs = "[]" and name = "''B''" and newNotes = "[]"] e5 c5
    by blast
  have e6: "saveNotesLocally ?sN ?b [Some (demo_note ''m'')] = Inr ?sN'"
    by (simp add: saveNotesLocally_def existsSync_def readFileSync_def JSON_parse_def
        Object_keys_def writeFileSync_def JSON_stringify_def assign_fresh_def undef_null_def
        demo_url_def)
  have c6: "notes_count ?sN ?b \<le> 1"
    by (simp add: notes_count_def demo_url_def)
  have 6: "notes_count ?sN' ?b \<le> 1"
    using T [where s = ?sN and url = ?b and s'' = ?sN' and u = ?b
        and newNotes = "[Some (demo_note ''m'')]"] e6 c6
    by blast
  from 1 2 3 s4 c4 4 e5 c5 5 e6 c6 6 show ?thesis by blast
qed

end
